theory Spec2Isabelle
  imports Main "HOL-Library.Word" "HOL-Library.Multiset"
begin

unbundle bit_operations_syntax

section \<open>Platform types and constants\<close>

text \<open>
  An \<open>HRESULT\<close> is a signed 32-bit value; \<open>FAILED\<close> tests its sign bit. The error codes
  are the ones of the Windows SDK.
\<close>

type_synonym HRESULT = "32 word"
type_synonym uint64_t = "64 word"
type_synonym uint32_t = "32 word"

definition S_OK :: HRESULT where "S_OK = 0"
definition E_FAIL :: HRESULT where "E_FAIL = 0x80004005"
definition E_OUTOFMEMORY :: HRESULT where "E_OUTOFMEMORY = 0x8007000E"
definition E_INVALIDARG :: HRESULT where "E_INVALIDARG = 0x80070057"
definition E_POINTER :: HRESULT where "E_POINTER = 0x80004003"

definition FAILED :: "HRESULT \<Rightarrow> bool" where
  "FAILED hr \<longleftrightarrow> sint hr < 0"

definition SUCCEEDED :: "HRESULT \<Rightarrow> bool" where
  "SUCCEEDED hr \<longleftrightarrow> 0 \<le> sint hr"

text \<open>
  Modelled from the spec: \<open>kInvalidSize\<close> and \<open>kInvalidOffset\<close> are declared in headers
  that are not under src/. The code uses them as sentinels that no real size or offset
  equals; they are the largest \<open>uint64_t\<close> value.
\<close>

definition kInvalidSize :: uint64_t where "kInvalidSize = 0xFFFFFFFFFFFFFFFF"
definition kInvalidOffset :: uint64_t where "kInvalidOffset = 0xFFFFFFFFFFFFFFFF"

definition D3D12_DEFAULT_RESOURCE_PLACEMENT_ALIGNMENT :: uint64_t where
  "D3D12_DEFAULT_RESOURCE_PLACEMENT_ALIGNMENT = 65536"
definition D3D12_SMALL_RESOURCE_PLACEMENT_ALIGNMENT :: uint64_t where
  "D3D12_SMALL_RESOURCE_PLACEMENT_ALIGNMENT = 4096"
definition D3D12_SMALL_MSAA_RESOURCE_PLACEMENT_ALIGNMENT :: uint64_t where
  "D3D12_SMALL_MSAA_RESOURCE_PLACEMENT_ALIGNMENT = 65536"
definition D3D12_DEFAULT_MSAA_RESOURCE_PLACEMENT_ALIGNMENT :: uint64_t where
  "D3D12_DEFAULT_MSAA_RESOURCE_PLACEMENT_ALIGNMENT = 4194304"

definition D3D12_RESOURCE_FLAG_ALLOW_RENDER_TARGET :: uint32_t where
  "D3D12_RESOURCE_FLAG_ALLOW_RENDER_TARGET = 0x1"
definition D3D12_RESOURCE_FLAG_ALLOW_DEPTH_STENCIL :: uint32_t where
  "D3D12_RESOURCE_FLAG_ALLOW_DEPTH_STENCIL = 0x2"

definition D3D12_HEAP_FLAG_NONE :: uint32_t where
  "D3D12_HEAP_FLAG_NONE = 0x0"
definition D3D12_HEAP_FLAG_DENY_BUFFERS :: uint32_t where
  "D3D12_HEAP_FLAG_DENY_BUFFERS = 0x4"
definition D3D12_HEAP_FLAG_DENY_RT_DS_TEXTURES :: uint32_t where
  "D3D12_HEAP_FLAG_DENY_RT_DS_TEXTURES = 0x40"
definition D3D12_HEAP_FLAG_DENY_NON_RT_DS_TEXTURES :: uint32_t where
  "D3D12_HEAP_FLAG_DENY_NON_RT_DS_TEXTURES = 0x80"
definition D3D12_HEAP_FLAG_ALLOW_ALL_BUFFERS_AND_TEXTURES :: uint32_t where
  "D3D12_HEAP_FLAG_ALLOW_ALL_BUFFERS_AND_TEXTURES = 0x0"
definition D3D12_HEAP_FLAG_ALLOW_ONLY_BUFFERS :: uint32_t where
  "D3D12_HEAP_FLAG_ALLOW_ONLY_BUFFERS = 0xC0"
definition D3D12_HEAP_FLAG_ALLOW_ONLY_NON_RT_DS_TEXTURES :: uint32_t where
  "D3D12_HEAP_FLAG_ALLOW_ONLY_NON_RT_DS_TEXTURES = 0x44"
definition D3D12_HEAP_FLAG_ALLOW_ONLY_RT_DS_TEXTURES :: uint32_t where
  "D3D12_HEAP_FLAG_ALLOW_ONLY_RT_DS_TEXTURES = 0x84"

definition D3D12_RESOURCE_STATE_GENERIC_READ :: uint32_t where
  "D3D12_RESOURCE_STATE_GENERIC_READ = 0xAC3"
definition D3D12_RESOURCE_STATE_COPY_DEST :: uint32_t where
  "D3D12_RESOURCE_STATE_COPY_DEST = 0x400"

definition D3D12_RESOURCE_HEAP_TIER_2 :: nat where
  "D3D12_RESOURCE_HEAP_TIER_2 = 2"

datatype D3D12_HEAP_TYPE =
    D3D12_HEAP_TYPE_DEFAULT
  | D3D12_HEAP_TYPE_UPLOAD
  | D3D12_HEAP_TYPE_READBACK
  | D3D12_HEAP_TYPE_CUSTOM

datatype D3D12_RESOURCE_DIMENSION =
    D3D12_RESOURCE_DIMENSION_UNKNOWN
  | D3D12_RESOURCE_DIMENSION_BUFFER
  | D3D12_RESOURCE_DIMENSION_TEXTURE1D
  | D3D12_RESOURCE_DIMENSION_TEXTURE2D
  | D3D12_RESOURCE_DIMENSION_TEXTURE3D

datatype DXGI_MEMORY_SEGMENT_GROUP =
    DXGI_MEMORY_SEGMENT_GROUP_LOCAL
  | DXGI_MEMORY_SEGMENT_GROUP_NON_LOCAL

record D3D12_RESOURCE_DESC =
  Dimension :: D3D12_RESOURCE_DIMENSION
  Alignment :: uint64_t
  Width :: uint64_t
  Height :: uint32_t
  DepthOrArraySize :: "16 word"
  MipLevels :: "16 word"
  Format :: uint32_t
  SampleCount :: uint32_t
  Layout :: uint32_t
  Flags :: uint32_t

record D3D12_RESOURCE_ALLOCATION_INFO =
  SizeInBytes :: uint64_t
  InfoAlignment :: uint64_t

text \<open>
  The allocation flags are tested one bit at a time (\<open>Flags & ALLOCATION_FLAG_X\<close>); their
  bit values are declared outside src/, so the flag word is the set of flags that are on.
\<close>

datatype ALLOCATION_FLAGS =
    ALLOCATION_FLAG_NEVER_ALLOCATE_MEMORY
  | ALLOCATION_FLAG_ALLOW_SUBALLOCATE_WITHIN_RESOURCE
  | ALLOCATION_FLAG_NEVER_SUBALLOCATE_MEMORY
  | ALLOCATION_FLAG_ALWAYS_PREFETCH_MEMORY

record ALLOCATION_DESC =
  AllocFlags :: "ALLOCATION_FLAGS set"
  HeapType :: D3D12_HEAP_TYPE

section \<open>Resource heap types\<close>

datatype RESOURCE_HEAP_TYPE =
    RESOURCE_HEAP_TYPE_READBACK_ALLOW_ALL_BUFFERS_AND_TEXTURES
  | RESOURCE_HEAP_TYPE_UPLOAD_ALLOW_ALL_BUFFERS_AND_TEXTURES
  | RESOURCE_HEAP_TYPE_DEFAULT_ALLOW_ALL_BUFFERS_AND_TEXTURES
  | RESOURCE_HEAP_TYPE_READBACK_ALLOW_ONLY_BUFFERS
  | RESOURCE_HEAP_TYPE_UPLOAD_ALLOW_ONLY_BUFFERS
  | RESOURCE_HEAP_TYPE_DEFAULT_ALLOW_ONLY_BUFFERS
  | RESOURCE_HEAP_TYPE_DEFAULT_ALLOW_ONLY_NON_RT_OR_DS_TEXTURES
  | RESOURCE_HEAP_TYPE_DEFAULT_ALLOW_ONLY_RT_OR_DS_TEXTURES
  | RESOURCE_HEAP_TYPE_INVALID

fun GetHeapFlags :: "RESOURCE_HEAP_TYPE \<Rightarrow> uint32_t" where
  "GetHeapFlags RESOURCE_HEAP_TYPE_DEFAULT_ALLOW_ALL_BUFFERS_AND_TEXTURES =
     D3D12_HEAP_FLAG_ALLOW_ALL_BUFFERS_AND_TEXTURES"
| "GetHeapFlags RESOURCE_HEAP_TYPE_READBACK_ALLOW_ALL_BUFFERS_AND_TEXTURES =
     D3D12_HEAP_FLAG_ALLOW_ALL_BUFFERS_AND_TEXTURES"
| "GetHeapFlags RESOURCE_HEAP_TYPE_UPLOAD_ALLOW_ALL_BUFFERS_AND_TEXTURES =
     D3D12_HEAP_FLAG_ALLOW_ALL_BUFFERS_AND_TEXTURES"
| "GetHeapFlags RESOURCE_HEAP_TYPE_DEFAULT_ALLOW_ONLY_BUFFERS =
     D3D12_HEAP_FLAG_ALLOW_ONLY_BUFFERS"
| "GetHeapFlags RESOURCE_HEAP_TYPE_READBACK_ALLOW_ONLY_BUFFERS =
     D3D12_HEAP_FLAG_ALLOW_ONLY_BUFFERS"
| "GetHeapFlags RESOURCE_HEAP_TYPE_UPLOAD_ALLOW_ONLY_BUFFERS =
     D3D12_HEAP_FLAG_ALLOW_ONLY_BUFFERS"
| "GetHeapFlags RESOURCE_HEAP_TYPE_DEFAULT_ALLOW_ONLY_NON_RT_OR_DS_TEXTURES =
     D3D12_HEAP_FLAG_ALLOW_ONLY_NON_RT_DS_TEXTURES"
| "GetHeapFlags RESOURCE_HEAP_TYPE_DEFAULT_ALLOW_ONLY_RT_OR_DS_TEXTURES =
     D3D12_HEAP_FLAG_ALLOW_ONLY_RT_DS_TEXTURES"
| "GetHeapFlags RESOURCE_HEAP_TYPE_INVALID = D3D12_HEAP_FLAG_NONE"

definition GetHeapAlignment :: "uint32_t \<Rightarrow> uint64_t" where
  "GetHeapAlignment heapFlags =
     (let denyAllTexturesFlags =
            D3D12_HEAP_FLAG_DENY_RT_DS_TEXTURES OR D3D12_HEAP_FLAG_DENY_NON_RT_DS_TEXTURES
      in if (heapFlags AND denyAllTexturesFlags) = denyAllTexturesFlags
         then D3D12_DEFAULT_RESOURCE_PLACEMENT_ALIGNMENT
         else D3D12_DEFAULT_MSAA_RESOURCE_PLACEMENT_ALIGNMENT)"

definition GetResourceHeapType ::
  "D3D12_RESOURCE_DIMENSION \<Rightarrow> D3D12_HEAP_TYPE \<Rightarrow> uint32_t \<Rightarrow> nat \<Rightarrow> RESOURCE_HEAP_TYPE" where
  "GetResourceHeapType dimension heapType flags resourceHeapTier =
     (if resourceHeapTier \<ge> D3D12_RESOURCE_HEAP_TIER_2 then
        (case heapType of
           D3D12_HEAP_TYPE_UPLOAD \<Rightarrow> RESOURCE_HEAP_TYPE_UPLOAD_ALLOW_ALL_BUFFERS_AND_TEXTURES
         | D3D12_HEAP_TYPE_DEFAULT \<Rightarrow> RESOURCE_HEAP_TYPE_DEFAULT_ALLOW_ALL_BUFFERS_AND_TEXTURES
         | D3D12_HEAP_TYPE_READBACK \<Rightarrow> RESOURCE_HEAP_TYPE_READBACK_ALLOW_ALL_BUFFERS_AND_TEXTURES
         | D3D12_HEAP_TYPE_CUSTOM \<Rightarrow> RESOURCE_HEAP_TYPE_INVALID)
      else
        (case dimension of
           D3D12_RESOURCE_DIMENSION_BUFFER \<Rightarrow>
             (case heapType of
                D3D12_HEAP_TYPE_UPLOAD \<Rightarrow> RESOURCE_HEAP_TYPE_UPLOAD_ALLOW_ONLY_BUFFERS
              | D3D12_HEAP_TYPE_DEFAULT \<Rightarrow> RESOURCE_HEAP_TYPE_DEFAULT_ALLOW_ONLY_BUFFERS
              | D3D12_HEAP_TYPE_READBACK \<Rightarrow> RESOURCE_HEAP_TYPE_READBACK_ALLOW_ONLY_BUFFERS
              | D3D12_HEAP_TYPE_CUSTOM \<Rightarrow> RESOURCE_HEAP_TYPE_INVALID)
         | D3D12_RESOURCE_DIMENSION_UNKNOWN \<Rightarrow> RESOURCE_HEAP_TYPE_INVALID
         | _ \<Rightarrow>
             (case heapType of
                D3D12_HEAP_TYPE_DEFAULT \<Rightarrow>
                  (if (flags AND D3D12_RESOURCE_FLAG_ALLOW_DEPTH_STENCIL) \<noteq> 0
                      \<or> (flags AND D3D12_RESOURCE_FLAG_ALLOW_RENDER_TARGET) \<noteq> 0
                   then RESOURCE_HEAP_TYPE_DEFAULT_ALLOW_ONLY_RT_OR_DS_TEXTURES
                   else RESOURCE_HEAP_TYPE_DEFAULT_ALLOW_ONLY_NON_RT_OR_DS_TEXTURES)
              | _ \<Rightarrow> RESOURCE_HEAP_TYPE_INVALID)))"

text \<open>
  \<open>GetInitialResourceState\<close> has no value for a custom heap (the source reaches
  \<open>UNREACHABLE()\<close> there).
\<close>

fun GetInitialResourceState :: "D3D12_HEAP_TYPE \<Rightarrow> uint32_t option" where
  "GetInitialResourceState D3D12_HEAP_TYPE_DEFAULT = Some D3D12_RESOURCE_STATE_GENERIC_READ"
| "GetInitialResourceState D3D12_HEAP_TYPE_UPLOAD = Some D3D12_RESOURCE_STATE_GENERIC_READ"
| "GetInitialResourceState D3D12_HEAP_TYPE_READBACK = Some D3D12_RESOURCE_STATE_COPY_DEST"
| "GetInitialResourceState D3D12_HEAP_TYPE_CUSTOM = None"

section \<open>Heaps, blocks and allocations\<close>

type_synonym ID3D12Resource = nat

record Heap =
  hPageable :: ID3D12Resource
  hMemorySegmentGroup :: DXGI_MEMORY_SEGMENT_GROUP
  hSize :: uint64_t

record Block =
  bOffset :: uint64_t
  bSize :: uint64_t

datatype AllocationMethod = kStandalone | kSubAllocated | kSubAllocatedWithin | kUndefined

text \<open>
  An allocator of the facade: one of the three per-heap-type arrays, or the facade itself
  (\<open>this\<close>), which owns the committed allocations.
\<close>

datatype AllocatorRef =
    BufferAllocatorOfType RESOURCE_HEAP_TYPE
  | ResourceAllocatorOfType RESOURCE_HEAP_TYPE
  | ResourceHeapAllocatorOfType RESOURCE_HEAP_TYPE
  | ThisResourceAllocator

record MemoryAllocation =
  mAllocator :: "AllocatorRef option"
  mMemory :: "Heap option"
  mOffset :: uint64_t
  mMethod :: AllocationMethod
  mBlock :: "Block option"

record ResourceAllocation = MemoryAllocation +
  mResidencyManager :: bool
  mResource :: "ID3D12Resource option"
  mOffsetFromResource :: uint64_t

text \<open>
  Modelled from the spec: \<open>MemoryAllocation::GetSize\<close> is not under src/. A standalone
  allocation is the full extent of its memory; a sub-allocation has the size of its block.
\<close>

definition GetSize :: "'a MemoryAllocation_scheme \<Rightarrow> uint64_t" where
  "GetSize a =
     (case mMethod a of
        kStandalone \<Rightarrow> (case mMemory a of Some h \<Rightarrow> hSize h | None \<Rightarrow> kInvalidSize)
      | kSubAllocated \<Rightarrow> (case mBlock a of Some b \<Rightarrow> bSize b | None \<Rightarrow> kInvalidSize)
      | kSubAllocatedWithin \<Rightarrow> (case mBlock a of Some b \<Rightarrow> bSize b | None \<Rightarrow> kInvalidSize)
      | kUndefined \<Rightarrow> kInvalidSize)"

text \<open>
  Modelled from the spec: the two constructors of \<open>ResourceAllocation\<close> are not under
  src/. Each stores its arguments; the one for a placed or committed resource takes the
  offset from the heap and the method, the one for a resource sub-allocated within
  another resource takes the offset from that resource.
\<close>

definition NewResourceAllocation ::
  "bool \<Rightarrow> AllocatorRef option \<Rightarrow> uint64_t \<Rightarrow> Block option \<Rightarrow> AllocationMethod
     \<Rightarrow> ID3D12Resource \<Rightarrow> Heap option \<Rightarrow> ResourceAllocation" where
  "NewResourceAllocation residencyManager allocator offsetFromHeap block method resource resourceHeap =
     \<lparr> mAllocator = allocator, mMemory = resourceHeap, mOffset = offsetFromHeap,
       mMethod = method, mBlock = block,
       mResidencyManager = residencyManager, mResource = Some resource,
       mOffsetFromResource = 0 \<rparr>"

definition NewResourceAllocationWithin ::
  "bool \<Rightarrow> AllocatorRef option \<Rightarrow> Block option \<Rightarrow> uint64_t
     \<Rightarrow> ID3D12Resource \<Rightarrow> Heap option \<Rightarrow> ResourceAllocation" where
  "NewResourceAllocationWithin residencyManager allocator block offsetFromResource resource resourceHeap =
     \<lparr> mAllocator = allocator, mMemory = resourceHeap, mOffset = kInvalidOffset,
       mMethod = kSubAllocatedWithin, mBlock = block,
       mResidencyManager = residencyManager, mResource = Some resource,
       mOffsetFromResource = offsetFromResource \<rparr>"

section \<open>The facade's state and its collaborators\<close>

record MEMORY_ALLOCATOR_INFO =
  UsedBlockCount :: uint32_t
  UsedBlockUsage :: uint64_t
  UsedMemoryCount :: uint32_t
  UsedMemoryUsage :: uint64_t
  FreeMemoryUsage :: uint64_t

text \<open>
  Every call that leaves the facade (to a memory allocator of one of its three arrays, to
  the residency manager or to the device) is recorded, in order, in a trace.
\<close>

datatype Event =
    EvTryAllocateMemory AllocatorRef uint64_t uint64_t bool bool bool
  | EvDeallocateMemory AllocatorRef MemoryAllocation
  | EvEvict uint64_t DXGI_MEMORY_SEGMENT_GROUP
  | EvInsertHeap Heap
  | EvLockHeap "Heap option"
  | EvUnlockHeap "Heap option"
  | EvCreatePlacedResource "Heap option" uint64_t
  | EvCreateCommittedResource D3D12_HEAP_TYPE uint32_t

text \<open>
  The collaborators are not under src/ (the allocators behind the \<open>MemoryAllocator\<close>
  interface, the residency manager, the D3D12 device, and the helpers
  \<open>IsAllowedToUseSmallAlignment\<close> and \<open>GetPreferredMemorySegmentGroup\<close>). They are
  parameters: what a stateful collaborator answers may depend on every call made so far,
  so it is a function of the trace before the call. The arguments of
  \<open>TryAllocateMemory\<close> are, in the order of the interface: size, alignment,
  neverAllocate, cacheSize, prefetchMemory.
\<close>

record Env =
  device_GetResourceAllocationInfo :: "D3D12_RESOURCE_DESC \<Rightarrow> D3D12_RESOURCE_ALLOCATION_INFO"
  IsAllowedToUseSmallAlignment :: "D3D12_RESOURCE_DESC \<Rightarrow> bool"
  GetPreferredMemorySegmentGroup :: "bool \<Rightarrow> D3D12_HEAP_TYPE \<Rightarrow> DXGI_MEMORY_SEGMENT_GROUP"
  GetMemorySize :: "AllocatorRef \<Rightarrow> uint64_t"
  TryAllocateMemory ::
    "Event list \<Rightarrow> AllocatorRef \<Rightarrow> uint64_t \<Rightarrow> uint64_t \<Rightarrow> bool \<Rightarrow> bool \<Rightarrow> bool
       \<Rightarrow> MemoryAllocation option"
  AllocatorQueryInfo :: "Event list \<Rightarrow> AllocatorRef \<Rightarrow> MEMORY_ALLOCATOR_INFO"
  GetPageableAsResource :: "Heap option \<Rightarrow> HRESULT \<times> ID3D12Resource"
  device_CreatePlacedResource ::
    "Event list \<Rightarrow> Heap option \<Rightarrow> uint64_t \<Rightarrow> D3D12_RESOURCE_DESC \<Rightarrow> uint32_t \<Rightarrow> nat option
       \<Rightarrow> HRESULT \<times> ID3D12Resource"
  device_CreateCommittedResource ::
    "Event list \<Rightarrow> D3D12_HEAP_TYPE \<Rightarrow> uint32_t \<Rightarrow> D3D12_RESOURCE_DESC \<Rightarrow> uint32_t \<Rightarrow> nat option
       \<Rightarrow> HRESULT \<times> ID3D12Resource"
  Evict :: "Event list \<Rightarrow> uint64_t \<Rightarrow> DXGI_MEMORY_SEGMENT_GROUP \<Rightarrow> HRESULT"

text \<open>The fields of \<open>ResourceAllocator\<close> that are fixed at construction.\<close>

record ResourceAllocator =
  mHasResidencyManager :: bool
  mIsUMA :: bool
  mResourceHeapTier :: nat
  mIsAlwaysCommitted :: bool
  mIsAlwaysInBudget :: bool
  mMaxResourceHeapSize :: uint64_t
  mCapsMaxResourceSize :: uint64_t

text \<open>
  What a call changes: the trace, the facade's own counters \<open>mInfo\<close>, and the pointee of
  \<open>resourceAllocationOut\<close>.
\<close>

record State =
  trace :: "Event list"
  mInfo :: MEMORY_ALLOCATOR_INFO
  resourceAllocationOut :: "ResourceAllocation option"

definition emit :: "Event \<Rightarrow> State \<Rightarrow> State" where
  "emit e s = s\<lparr>trace := trace s @ [e]\<rparr>"

section \<open>GetResourceAllocationInfo\<close>

text \<open>
  Modelled from the spec: \<open>AlignTo\<close> is declared in gpgmm/common/Math.h, which is not
  under src/. It rounds a value up to the next multiple of a power-of-two alignment, in
  64-bit arithmetic.
\<close>

definition AlignTo :: "uint64_t \<Rightarrow> uint64_t \<Rightarrow> uint64_t" where
  "AlignTo n alignment = (n + (alignment - 1)) AND NOT (alignment - 1)"

text \<open>
  The descriptor is passed by reference and its alignment may be rewritten, so the
  function returns the descriptor too.
\<close>

definition GetResourceAllocationInfo ::
  "Env \<Rightarrow> D3D12_RESOURCE_DESC \<Rightarrow> D3D12_RESOURCE_ALLOCATION_INFO \<times> D3D12_RESOURCE_DESC" where
  "GetResourceAllocationInfo env resourceDescriptor =
     (if Alignment resourceDescriptor = 0
         \<and> Dimension resourceDescriptor = D3D12_RESOURCE_DIMENSION_BUFFER
      then (\<lparr> SizeInBytes = AlignTo (Width resourceDescriptor)
                               D3D12_DEFAULT_RESOURCE_PLACEMENT_ALIGNMENT,
              InfoAlignment = D3D12_DEFAULT_RESOURCE_PLACEMENT_ALIGNMENT \<rparr>,
            resourceDescriptor)
      else
        let desc1 =
              (if (Dimension resourceDescriptor = D3D12_RESOURCE_DIMENSION_TEXTURE1D
                   \<or> Dimension resourceDescriptor = D3D12_RESOURCE_DIMENSION_TEXTURE2D
                   \<or> Dimension resourceDescriptor = D3D12_RESOURCE_DIMENSION_TEXTURE3D)
                  \<and> IsAllowedToUseSmallAlignment env resourceDescriptor
                  \<and> (Flags resourceDescriptor
                       AND (D3D12_RESOURCE_FLAG_ALLOW_RENDER_TARGET
                            OR D3D12_RESOURCE_FLAG_ALLOW_DEPTH_STENCIL)) = 0
               then resourceDescriptor\<lparr>Alignment :=
                      (if SampleCount resourceDescriptor > 1
                       then D3D12_SMALL_MSAA_RESOURCE_PLACEMENT_ALIGNMENT
                       else D3D12_SMALL_RESOURCE_PLACEMENT_ALIGNMENT)\<rparr>
               else resourceDescriptor);
            info1 = device_GetResourceAllocationInfo env desc1;
            retry = (Alignment desc1 \<noteq> 0 \<and> Alignment desc1 \<noteq> InfoAlignment info1);
            desc2 = (if retry then desc1\<lparr>Alignment := 0\<rparr> else desc1);
            info2 = (if retry then device_GetResourceAllocationInfo env desc2 else info1);
            info3 = (if SizeInBytes info2 = 0 then info2\<lparr>SizeInBytes := kInvalidSize\<rparr>
                     else info2)
        in (info3, desc2))"

section \<open>TryAllocateResource\<close>

definition TryAllocateResource ::
  "Env \<Rightarrow> AllocatorRef \<Rightarrow> uint64_t \<Rightarrow> uint64_t \<Rightarrow> bool \<Rightarrow> bool \<Rightarrow> bool
     \<Rightarrow> (MemoryAllocation \<Rightarrow> State \<Rightarrow> HRESULT \<times> State) \<Rightarrow> State \<Rightarrow> HRESULT \<times> State" where
  "TryAllocateResource env allocator size' alignment neverAllocate cacheSize prefetchMemory
       createResourceFn s =
     (if GetMemorySize env allocator \<noteq> kInvalidSize \<and> size' > GetMemorySize env allocator
      then (E_FAIL, s)
      else
        let s1 = emit (EvTryAllocateMemory allocator size' alignment
                         neverAllocate cacheSize prefetchMemory) s
        in case TryAllocateMemory env (trace s) allocator size' alignment
                  neverAllocate cacheSize prefetchMemory of
             None \<Rightarrow> (E_FAIL, s1)
           | Some allocation \<Rightarrow>
               (case createResourceFn allocation s1 of
                  (hr, s2) \<Rightarrow>
                    if FAILED hr
                    then (hr, emit (EvDeallocateMemory allocator allocation) s2)
                    else (hr, s2)))"

definition ReturnIfSucceeded ::
  "HRESULT \<times> State \<Rightarrow> (State \<Rightarrow> HRESULT \<times> State) \<Rightarrow> HRESULT \<times> State" where
  "ReturnIfSucceeded r continue =
     (case r of (hr, s) \<Rightarrow> if SUCCEEDED hr then (hr, s) else continue s)"

section \<open>Creating resources\<close>

definition CreatePlacedResource ::
  "Env \<Rightarrow> ResourceAllocator \<Rightarrow> Heap option \<Rightarrow> uint64_t \<Rightarrow> D3D12_RESOURCE_DESC \<Rightarrow> nat option
     \<Rightarrow> uint32_t \<Rightarrow> State \<Rightarrow> (HRESULT \<times> ID3D12Resource) \<times> State" where
  "CreatePlacedResource env this resourceHeap resourceOffset resourceDescriptor clearValue
       initialResourceState s =
     (let s1 = (if mHasResidencyManager this then emit (EvLockHeap resourceHeap) s else s);
          r = device_CreatePlacedResource env (trace s1) resourceHeap resourceOffset
                resourceDescriptor initialResourceState clearValue;
          s2 = emit (EvCreatePlacedResource resourceHeap resourceOffset) s1;
          s3 = (if mHasResidencyManager this then emit (EvUnlockHeap resourceHeap) s2 else s2)
      in if FAILED (fst r) then ((fst r, snd r), s3) else ((S_OK, snd r), s3))"

definition CreateCommittedResource ::
  "Env \<Rightarrow> ResourceAllocator \<Rightarrow> D3D12_HEAP_TYPE \<Rightarrow> uint32_t \<Rightarrow> uint64_t \<Rightarrow> D3D12_RESOURCE_DESC
     \<Rightarrow> nat option \<Rightarrow> uint32_t \<Rightarrow> State
     \<Rightarrow> HRESULT \<times> (ID3D12Resource \<times> Heap) option \<times> State" where
  "CreateCommittedResource env this heapType heapFlags resourceSize resourceDescriptor
       clearValue initialResourceState s =
     (let memorySegmentGroup = GetPreferredMemorySegmentGroup env (mIsUMA this) heapType;
          evicted =
            (if mIsAlwaysInBudget this \<and> mHasResidencyManager this
             then (Evict env (trace s) resourceSize memorySegmentGroup,
                   emit (EvEvict resourceSize memorySegmentGroup) s)
             else (S_OK, s));
          s1 = snd evicted
      in if FAILED (fst evicted) then (fst evicted, None, s1)
         else
           let heapFlags' = heapFlags AND NOT (D3D12_HEAP_FLAG_DENY_NON_RT_DS_TEXTURES
                                 OR D3D12_HEAP_FLAG_DENY_RT_DS_TEXTURES
                                 OR D3D12_HEAP_FLAG_DENY_BUFFERS);
               r = device_CreateCommittedResource env (trace s1) heapType heapFlags'
                     resourceDescriptor initialResourceState clearValue;
               s2 = emit (EvCreateCommittedResource heapType heapFlags') s1
           in if FAILED (fst r) then (fst r, None, s2)
              else
                let resourceHeap = \<lparr> hPageable = snd r,
                                     hMemorySegmentGroup = memorySegmentGroup,
                                     hSize = resourceSize \<rparr>;
                    s3 = (if mHasResidencyManager this then emit (EvInsertHeap resourceHeap) s2
                          else s2)
                in (S_OK, Some (snd r, resourceHeap), s3))"

text \<open>
  The resource-creation callback of the first attempt (a buffer sub-allocated within a
  committed resource that is itself a pooled memory).
\<close>

definition CreateWithinResourceFn ::
  "Env \<Rightarrow> ResourceAllocator \<Rightarrow> MemoryAllocation \<Rightarrow> State \<Rightarrow> HRESULT \<times> State" where
  "CreateWithinResourceFn env this subAllocation s =
     (let resourceHeap = mMemory subAllocation;
          r = GetPageableAsResource env resourceHeap
      in if FAILED (fst r) then (fst r, s)
         else (S_OK, s\<lparr>resourceAllocationOut := Some
                 (NewResourceAllocationWithin (mHasResidencyManager this)
                    (mAllocator subAllocation) (mBlock subAllocation) (mOffset subAllocation)
                    (snd r) resourceHeap)\<rparr>))"

text \<open>
  The callback of the second and of the third attempt (the two lambdas have the same
  body): place the resource in the allocation's heap at the allocation's offset.
\<close>

definition CreatePlacedFn ::
  "Env \<Rightarrow> ResourceAllocator \<Rightarrow> D3D12_RESOURCE_DESC \<Rightarrow> nat option \<Rightarrow> uint32_t
     \<Rightarrow> MemoryAllocation \<Rightarrow> State \<Rightarrow> HRESULT \<times> State" where
  "CreatePlacedFn env this newResourceDesc clearValue initialResourceState subAllocation s =
     (let resourceHeap = mMemory subAllocation
      in case CreatePlacedResource env this resourceHeap (mOffset subAllocation)
                newResourceDesc clearValue initialResourceState s of
           ((hr, placedResource), s1) \<Rightarrow>
             if FAILED hr then (hr, s1)
             else (S_OK, s1\<lparr>resourceAllocationOut := Some
                     (NewResourceAllocation (mHasResidencyManager this)
                        (mAllocator subAllocation) (mOffset subAllocation)
                        (mBlock subAllocation) (mMethod subAllocation)
                        placedResource resourceHeap)\<rparr>))"

text \<open>
  \<open>CreateResourceInternal\<close>, from its end to its start. The last resort: a committed
  resource, owned by the facade itself.
\<close>

definition CommittedFallback ::
  "Env \<Rightarrow> ResourceAllocator \<Rightarrow> ALLOCATION_DESC \<Rightarrow> D3D12_RESOURCE_DESC
     \<Rightarrow> D3D12_RESOURCE_ALLOCATION_INFO \<Rightarrow> RESOURCE_HEAP_TYPE \<Rightarrow> uint32_t \<Rightarrow> nat option
     \<Rightarrow> State \<Rightarrow> HRESULT \<times> State" where
  "CommittedFallback env this allocationDescriptor newResourceDesc resourceInfo
       resourceHeapType initialResourceState clearValue s =
     (if ALLOCATION_FLAG_NEVER_ALLOCATE_MEMORY \<in> AllocFlags allocationDescriptor
      then (E_OUTOFMEMORY, s)
      else
        case CreateCommittedResource env this (HeapType allocationDescriptor)
               (GetHeapFlags resourceHeapType) (SizeInBytes resourceInfo) newResourceDesc
               clearValue initialResourceState s of
          (hr, created, s1) \<Rightarrow>
            if FAILED hr then (hr, s1)
            else
              (case created of
                 None \<Rightarrow> (hr, s1)
               | Some (committedResource, resourceHeap) \<Rightarrow>
                   (S_OK,
                    s1\<lparr> mInfo := (mInfo s1)
                           \<lparr> UsedMemoryUsage := UsedMemoryUsage (mInfo s1) + hSize resourceHeap,
                             UsedMemoryCount := UsedMemoryCount (mInfo s1) + 1 \<rparr>,
                         resourceAllocationOut := Some
                           (NewResourceAllocation (mHasResidencyManager this)
                              (Some ThisResourceAllocator) kInvalidOffset None kStandalone
                              committedResource (Some resourceHeap)) \<rparr>)))"

text \<open>The third attempt: a placed resource alone in a resource heap.\<close>

definition TryResourceHeap ::
  "Env \<Rightarrow> ResourceAllocator \<Rightarrow> ALLOCATION_DESC \<Rightarrow> D3D12_RESOURCE_DESC
     \<Rightarrow> D3D12_RESOURCE_ALLOCATION_INFO \<Rightarrow> RESOURCE_HEAP_TYPE \<Rightarrow> uint32_t \<Rightarrow> nat option
     \<Rightarrow> State \<Rightarrow> HRESULT \<times> State" where
  "TryResourceHeap env this allocationDescriptor newResourceDesc resourceInfo
       resourceHeapType initialResourceState clearValue s =
     (let neverAllocate =
            (ALLOCATION_FLAG_NEVER_ALLOCATE_MEMORY \<in> AllocFlags allocationDescriptor);
          continue = CommittedFallback env this allocationDescriptor newResourceDesc
                       resourceInfo resourceHeapType initialResourceState clearValue
      in if \<not> mIsAlwaysCommitted this
         then ReturnIfSucceeded
                (TryAllocateResource env (ResourceHeapAllocatorOfType resourceHeapType)
                   (SizeInBytes resourceInfo) (GetHeapAlignment (GetHeapFlags resourceHeapType))
                   neverAllocate False False
                   (CreatePlacedFn env this newResourceDesc clearValue initialResourceState) s)
                continue
         else continue s)"

text \<open>
  The second attempt: a placed resource in a sub-allocated resource heap. The call passes
  \<open>prefetchMemory\<close> as the fifth argument and \<open>false\<close> as the sixth.
\<close>

definition TrySubAllocatedResourceHeap ::
  "Env \<Rightarrow> ResourceAllocator \<Rightarrow> ALLOCATION_DESC \<Rightarrow> D3D12_RESOURCE_DESC
     \<Rightarrow> D3D12_RESOURCE_ALLOCATION_INFO \<Rightarrow> RESOURCE_HEAP_TYPE \<Rightarrow> uint32_t \<Rightarrow> nat option
     \<Rightarrow> State \<Rightarrow> HRESULT \<times> State" where
  "TrySubAllocatedResourceHeap env this allocationDescriptor newResourceDesc resourceInfo
       resourceHeapType initialResourceState clearValue s =
     (let neverAllocate =
            (ALLOCATION_FLAG_NEVER_ALLOCATE_MEMORY \<in> AllocFlags allocationDescriptor);
          neverSubAllocate =
            (ALLOCATION_FLAG_NEVER_SUBALLOCATE_MEMORY \<in> AllocFlags allocationDescriptor);
          prefetchMemory =
            (ALLOCATION_FLAG_ALWAYS_PREFETCH_MEMORY \<in> AllocFlags allocationDescriptor);
          continue = TryResourceHeap env this allocationDescriptor newResourceDesc
                       resourceInfo resourceHeapType initialResourceState clearValue
      in if \<not> mIsAlwaysCommitted this \<and> \<not> neverSubAllocate
         then ReturnIfSucceeded
                (TryAllocateResource env (ResourceAllocatorOfType resourceHeapType)
                   (SizeInBytes resourceInfo) (InfoAlignment resourceInfo)
                   neverAllocate prefetchMemory False
                   (CreatePlacedFn env this newResourceDesc clearValue initialResourceState) s)
                continue
         else continue s)"

text \<open>The first attempt: a buffer sub-allocated within a resource.\<close>

definition TryWithinResource ::
  "Env \<Rightarrow> ResourceAllocator \<Rightarrow> ALLOCATION_DESC \<Rightarrow> D3D12_RESOURCE_DESC
     \<Rightarrow> D3D12_RESOURCE_ALLOCATION_INFO \<Rightarrow> RESOURCE_HEAP_TYPE \<Rightarrow> uint32_t \<Rightarrow> nat option
     \<Rightarrow> State \<Rightarrow> HRESULT \<times> State" where
  "TryWithinResource env this allocationDescriptor newResourceDesc resourceInfo
       resourceHeapType initialResourceState clearValue s =
     (let neverAllocate =
            (ALLOCATION_FLAG_NEVER_ALLOCATE_MEMORY \<in> AllocFlags allocationDescriptor);
          neverSubAllocate =
            (ALLOCATION_FLAG_NEVER_SUBALLOCATE_MEMORY \<in> AllocFlags allocationDescriptor);
          continue = TrySubAllocatedResourceHeap env this allocationDescriptor newResourceDesc
                       resourceInfo resourceHeapType initialResourceState clearValue
      in if ALLOCATION_FLAG_ALLOW_SUBALLOCATE_WITHIN_RESOURCE \<in> AllocFlags allocationDescriptor
            \<and> InfoAlignment resourceInfo > Width newResourceDesc
            \<and> Dimension newResourceDesc = D3D12_RESOURCE_DIMENSION_BUFFER
            \<and> GetInitialResourceState (HeapType allocationDescriptor) = Some initialResourceState
            \<and> \<not> mIsAlwaysCommitted this \<and> \<not> neverSubAllocate
         then ReturnIfSucceeded
                (TryAllocateResource env (BufferAllocatorOfType resourceHeapType)
                   (Width newResourceDesc)
                   (if Alignment newResourceDesc = 0 then 1 else Alignment newResourceDesc)
                   neverAllocate False False
                   (CreateWithinResourceFn env this) s)
                continue
         else continue s)"

definition CreateResourceInternal ::
  "Env \<Rightarrow> ResourceAllocator \<Rightarrow> ALLOCATION_DESC \<Rightarrow> D3D12_RESOURCE_DESC \<Rightarrow> uint32_t \<Rightarrow> nat option
     \<Rightarrow> State \<Rightarrow> HRESULT \<times> State" where
  "CreateResourceInternal env this allocationDescriptor resourceDescriptor
       initialResourceState clearValue s =
     (case GetResourceAllocationInfo env resourceDescriptor of
        (resourceInfo, newResourceDesc) \<Rightarrow>
          if SizeInBytes resourceInfo = kInvalidSize then (E_OUTOFMEMORY, s)
          else if SizeInBytes resourceInfo > mMaxResourceHeapSize this
                  \<or> SizeInBytes resourceInfo > mCapsMaxResourceSize this
          then (E_OUTOFMEMORY, s)
          else
            let resourceHeapType =
                  GetResourceHeapType (Dimension newResourceDesc)
                    (HeapType allocationDescriptor) (Flags newResourceDesc)
                    (mResourceHeapTier this)
            in if resourceHeapType = RESOURCE_HEAP_TYPE_INVALID then (E_INVALIDARG, s)
               else TryWithinResource env this allocationDescriptor newResourceDesc
                      resourceInfo resourceHeapType initialResourceState clearValue s)"

text \<open>
  The public entry point. \<open>resourceAllocationOutIsNull\<close> says that the caller passed a
  null pointer for the result.
\<close>

definition CreateResource ::
  "Env \<Rightarrow> ResourceAllocator \<Rightarrow> ALLOCATION_DESC \<Rightarrow> D3D12_RESOURCE_DESC \<Rightarrow> uint32_t \<Rightarrow> nat option
     \<Rightarrow> bool \<Rightarrow> State \<Rightarrow> HRESULT \<times> State" where
  "CreateResource env this allocationDescriptor resourceDescriptor initialResourceState
       clearValue resourceAllocationOutIsNull s =
     (if resourceAllocationOutIsNull then (E_POINTER, s)
      else
        case CreateResourceInternal env this allocationDescriptor resourceDescriptor
               initialResourceState clearValue s of
          (hr, s1) \<Rightarrow> if FAILED hr then (hr, s1) else (S_OK, s1))"

section \<open>Deallocation and statistics\<close>

definition DeallocateMemory :: "'a MemoryAllocation_scheme \<Rightarrow> State \<Rightarrow> State" where
  "DeallocateMemory allocation s =
     s\<lparr> mInfo := (mInfo s)
          \<lparr> UsedMemoryUsage := UsedMemoryUsage (mInfo s) - GetSize allocation,
            UsedMemoryCount := UsedMemoryCount (mInfo s) - 1 \<rparr> \<rparr>"

text \<open>
  Modelled from the spec: the sum of two \<open>MEMORY_ALLOCATOR_INFO\<close> (the operator \<open>+=\<close>
  is declared outside src/) aggregates each counter.
\<close>

definition AddInfo :: "MEMORY_ALLOCATOR_INFO \<Rightarrow> MEMORY_ALLOCATOR_INFO \<Rightarrow> MEMORY_ALLOCATOR_INFO" where
  "AddInfo a b =
     \<lparr> UsedBlockCount = UsedBlockCount a + UsedBlockCount b,
       UsedBlockUsage = UsedBlockUsage a + UsedBlockUsage b,
       UsedMemoryCount = UsedMemoryCount a + UsedMemoryCount b,
       UsedMemoryUsage = UsedMemoryUsage a + UsedMemoryUsage b,
       FreeMemoryUsage = FreeMemoryUsage a + FreeMemoryUsage b \<rparr>"

definition kResourceHeapTypes :: "RESOURCE_HEAP_TYPE list" where
  "kResourceHeapTypes =
     [RESOURCE_HEAP_TYPE_READBACK_ALLOW_ALL_BUFFERS_AND_TEXTURES,
      RESOURCE_HEAP_TYPE_UPLOAD_ALLOW_ALL_BUFFERS_AND_TEXTURES,
      RESOURCE_HEAP_TYPE_DEFAULT_ALLOW_ALL_BUFFERS_AND_TEXTURES,
      RESOURCE_HEAP_TYPE_READBACK_ALLOW_ONLY_BUFFERS,
      RESOURCE_HEAP_TYPE_UPLOAD_ALLOW_ONLY_BUFFERS,
      RESOURCE_HEAP_TYPE_DEFAULT_ALLOW_ONLY_BUFFERS,
      RESOURCE_HEAP_TYPE_DEFAULT_ALLOW_ONLY_NON_RT_OR_DS_TEXTURES,
      RESOURCE_HEAP_TYPE_DEFAULT_ALLOW_ONLY_RT_OR_DS_TEXTURES]"

text \<open>The allocators of the facade, in the order in which \<open>QueryInfo\<close> visits them.\<close>

definition AllocatorsOfFacade :: "AllocatorRef list" where
  "AllocatorsOfFacade =
     map ResourceAllocatorOfType kResourceHeapTypes
     @ map BufferAllocatorOfType kResourceHeapTypes
     @ map ResourceHeapAllocatorOfType kResourceHeapTypes"

definition QueryInfo :: "Env \<Rightarrow> State \<Rightarrow> MEMORY_ALLOCATOR_INFO" where
  "QueryInfo env s =
     foldl (\<lambda>result allocator. AddInfo result (AllocatorQueryInfo env (trace s) allocator))
       (mInfo s) AllocatorsOfFacade"

section \<open>Releasing an allocation\<close>

text \<open>
  Modelled from the spec: \<open>MemoryAllocation::Reset\<close> is not under src/. It leaves the
  allocation in the released state: no allocator, no memory, no block, an invalid offset.
\<close>

definition Reset :: "ResourceAllocation \<Rightarrow> ResourceAllocation" where
  "Reset a = a\<lparr> mAllocator := None, mMemory := None, mOffset := kInvalidOffset,
               mMethod := kUndefined, mBlock := None \<rparr>"

text \<open>
  \<open>ReleaseThis\<close> on an allocation object (\<open>None\<close> is the null \<open>this\<close>). The call of
  \<open>GetAllocator()->DeallocateMemory(*this)\<close> is recorded with the allocator that
  receives it.
\<close>

definition ReleaseThis ::
  "ResourceAllocation option \<Rightarrow> Event list \<Rightarrow> ResourceAllocation option \<times> Event list" where
  "ReleaseThis this tr =
     (case this of
        None \<Rightarrow> (None, tr)
      | Some a \<Rightarrow>
          let tr1 = (case mAllocator a of
                       Some allocator \<Rightarrow>
                         tr @ [EvDeallocateMemory allocator (MemoryAllocation.truncate a)]
                     | None \<Rightarrow> tr)
          in (Some (Reset (a\<lparr>mResource := None\<rparr>)), tr1))"

section \<open>Sequences of requests\<close>

type_synonym Request = "ALLOCATION_DESC \<times> D3D12_RESOURCE_DESC \<times> uint32_t \<times> nat option"

text \<open>
  What a call of \<open>CreateResourceInternal\<close> hands to its caller: the allocation written to
  \<open>resourceAllocationOut\<close> when the call succeeded, nothing when it failed.
\<close>

definition NewAllocations :: "HRESULT \<Rightarrow> State \<Rightarrow> ResourceAllocation list" where
  "NewAllocations hr s =
     (if SUCCEEDED hr then (case resourceAllocationOut s of Some a \<Rightarrow> [a] | None \<Rightarrow> [])
      else [])"

text \<open>
  A sequence of calls of \<open>CreateResourceInternal\<close>, one per request, each on the state
  the one before left. It returns the allocations handed to the caller, in order.
\<close>

fun CreateResources ::
  "Env \<Rightarrow> ResourceAllocator \<Rightarrow> Request list \<Rightarrow> State \<Rightarrow> ResourceAllocation list \<times> State" where
  "CreateResources env this [] s = ([], s)"
| "CreateResources env this ((allocationDescriptor, resourceDescriptor, initialResourceState,
       clearValue) # requests) s =
     (case CreateResourceInternal env this allocationDescriptor resourceDescriptor
             initialResourceState clearValue s of
        (hr, s1) \<Rightarrow>
          (case CreateResources env this requests s1 of
             (allocations, s2) \<Rightarrow> (NewAllocations hr s1 @ allocations, s2)))"

text \<open>The committed allocations are the ones that the facade itself owns.\<close>

definition IsCommitted :: "'a MemoryAllocation_scheme \<Rightarrow> bool" where
  "IsCommitted a \<longleftrightarrow> mAllocator a = Some ThisResourceAllocator"

section \<open>Traces\<close>

text \<open>\<open>extends P s s'\<close>: the trace of \<open>s'\<close> is the trace of \<open>s\<close> and then events that satisfy \<open>P\<close>.\<close>

definition extends :: "(Event \<Rightarrow> bool) \<Rightarrow> State \<Rightarrow> State \<Rightarrow> bool" where
  "extends P s s' \<longleftrightarrow> (\<exists>es. trace s' = trace s @ es \<and> list_all P es)"

text \<open>The facade's counters after \<open>n\<close> more memories of \<open>bytes\<close> bytes in all.\<close>

definition AddCounters :: "uint32_t \<Rightarrow> uint64_t \<Rightarrow> MEMORY_ALLOCATOR_INFO \<Rightarrow> MEMORY_ALLOCATOR_INFO" where
  "AddCounters n bytes info =
     info\<lparr> UsedMemoryUsage := UsedMemoryUsage info + bytes,
           UsedMemoryCount := UsedMemoryCount info + n \<rparr>"

text \<open>
  The calls that a sub-allocation attempt makes: a request to an allocator with the given
  \<open>neverAllocate\<close>, a deallocation, and the placement of a resource in a locked heap.
\<close>

fun SubAllocationEvent :: "bool \<Rightarrow> Event \<Rightarrow> bool" where
  "SubAllocationEvent never (EvTryAllocateMemory allocator sz alignment neverAllocate cacheSize
       prefetchMemory) = (neverAllocate = never)"
| "SubAllocationEvent never (EvDeallocateMemory allocator allocation) = True"
| "SubAllocationEvent never (EvLockHeap heap) = True"
| "SubAllocationEvent never (EvUnlockHeap heap) = True"
| "SubAllocationEvent never (EvCreatePlacedResource heap offset) = True"
| "SubAllocationEvent never _ = False"

text \<open>\<open>keeps P s s'\<close>: as \<open>extends\<close>, and the facade's counters are the same.\<close>

definition keeps :: "(Event \<Rightarrow> bool) \<Rightarrow> State \<Rightarrow> State \<Rightarrow> bool" where
  "keeps P s s' \<longleftrightarrow> extends P s s' \<and> mInfo s' = mInfo s"

text \<open>
  The allocation in \<open>resourceAllocationOut\<close> has the owner of an allocation that one of
  the allocators returned to a request with the given \<open>neverAllocate\<close>.
\<close>

definition ProducedBySubAllocation :: "Env \<Rightarrow> bool \<Rightarrow> State \<Rightarrow> bool" where
  "ProducedBySubAllocation env never s \<longleftrightarrow>
     (\<exists>ra a tr allocator sz al c p.
        resourceAllocationOut s = Some ra \<and> mAllocator ra = mAllocator a
        \<and> TryAllocateMemory env tr allocator sz al never c p = Some a)"

section \<open>Example collaborators and requests\<close>

definition exampleHeap :: Heap where
  "exampleHeap = \<lparr> hPageable = 1, hMemorySegmentGroup = DXGI_MEMORY_SEGMENT_GROUP_LOCAL,
                   hSize = 4194304 \<rparr>"

definition exampleAllocation :: MemoryAllocation where
  "exampleAllocation =
     \<lparr> mAllocator = Some (ResourceAllocatorOfType
                           RESOURCE_HEAP_TYPE_DEFAULT_ALLOW_ALL_BUFFERS_AND_TEXTURES),
       mMemory = Some exampleHeap, mOffset = 65536, mMethod = kSubAllocated,
       mBlock = Some \<lparr> bOffset = 65536, bSize = 65536 \<rparr> \<rparr>"

text \<open>
  A device that reports the width of a resource as its size; allocators that all have
  the given memory size and all answer the given allocation; a device and a residency
  manager that answer the given results.
\<close>

definition exampleEnv ::
  "uint64_t \<Rightarrow> MemoryAllocation option \<Rightarrow> HRESULT \<Rightarrow> HRESULT \<Rightarrow> HRESULT \<Rightarrow> Env" where
  "exampleEnv memorySize allocation hrPlaced hrCommitted hrEvict =
     \<lparr> device_GetResourceAllocationInfo =
         (\<lambda>d. \<lparr> SizeInBytes = Width d, InfoAlignment = 65536 \<rparr>),
       IsAllowedToUseSmallAlignment = (\<lambda>d. False),
       GetPreferredMemorySegmentGroup = (\<lambda>isUMA heapType. DXGI_MEMORY_SEGMENT_GROUP_LOCAL),
       GetMemorySize = (\<lambda>a. memorySize),
       TryAllocateMemory = (\<lambda>tr a sz al n c p. allocation),
       AllocatorQueryInfo = (\<lambda>tr a. \<lparr> UsedBlockCount = 0, UsedBlockUsage = 0,
                                      UsedMemoryCount = 0, UsedMemoryUsage = 0,
                                      FreeMemoryUsage = 0 \<rparr>),
       GetPageableAsResource = (\<lambda>h. (S_OK, 7)),
       device_CreatePlacedResource = (\<lambda>tr h off d st cv. (hrPlaced, 8)),
       device_CreateCommittedResource = (\<lambda>tr ht hf d st cv. (hrCommitted, 9)),
       Evict = (\<lambda>tr sz g. hrEvict) \<rparr>"

definition exampleThis :: "bool \<Rightarrow> ResourceAllocator" where
  "exampleThis alwaysCommitted =
     \<lparr> mHasResidencyManager = True, mIsUMA = False, mResourceHeapTier = 2,
       mIsAlwaysCommitted = alwaysCommitted, mIsAlwaysInBudget = True,
       mMaxResourceHeapSize = 4294967296, mCapsMaxResourceSize = 1099511627775 \<rparr>"

definition exampleState :: State where
  "exampleState =
     \<lparr> trace = [],
       mInfo = \<lparr> UsedBlockCount = 0, UsedBlockUsage = 0, UsedMemoryCount = 0,
                 UsedMemoryUsage = 0, FreeMemoryUsage = 0 \<rparr>,
       resourceAllocationOut = None \<rparr>"

definition exampleResource ::
  "D3D12_RESOURCE_DIMENSION \<Rightarrow> uint64_t \<Rightarrow> uint64_t \<Rightarrow> D3D12_RESOURCE_DESC" where
  "exampleResource dimension alignment width =
     \<lparr> Dimension = dimension, Alignment = alignment, Width = width, Height = 1,
       DepthOrArraySize = 1, MipLevels = 1, Format = 0, SampleCount = 1, Layout = 1,
       Flags = 0 \<rparr>"

definition exampleRequest :: "ALLOCATION_FLAGS set \<Rightarrow> ALLOCATION_DESC" where
  "exampleRequest flags = \<lparr> AllocFlags = flags, HeapType = D3D12_HEAP_TYPE_DEFAULT \<rparr>"

section \<open>Properties\<close>

lemma FAILED_simps:
  "FAILED E_FAIL" "FAILED E_OUTOFMEMORY" "FAILED E_INVALIDARG" "FAILED E_POINTER"
  "\<not> FAILED S_OK"
  by (simp_all add: FAILED_def E_FAIL_def E_OUTOFMEMORY_def E_INVALIDARG_def E_POINTER_def
        S_OK_def)

lemma SUCCEEDED_iff: "SUCCEEDED hr \<longleftrightarrow> \<not> FAILED hr"
  by (auto simp: SUCCEEDED_def FAILED_def)

subsection \<open>Traces of the sub-allocation attempts\<close>

lemma extends_refl: "extends P s s"
  by (simp add: extends_def)

lemma extends_trans: "extends P s s1 \<Longrightarrow> extends P s1 s2 \<Longrightarrow> extends P s s2"
  unfolding extends_def by (metis append.assoc list_all_append)

lemma extends_emit: "P e \<Longrightarrow> extends P s (emit e s)"
  by (simp add: extends_def emit_def)

lemma extends_mono: "extends P s s' \<Longrightarrow> (\<And>e. P e \<Longrightarrow> Q e) \<Longrightarrow> extends Q s s'"
  unfolding extends_def list_all_iff by blast

lemma keeps_refl: "keeps P s s"
  by (simp add: keeps_def extends_refl)

lemma keeps_trans: "keeps P s s1 \<Longrightarrow> keeps P s1 s2 \<Longrightarrow> keeps P s s2"
  unfolding keeps_def using extends_trans by auto

lemma keeps_emit: "P e \<Longrightarrow> keeps P s (emit e s)"
  by (simp add: keeps_def extends_emit) (simp add: emit_def)

lemma keeps_out: "keeps P s (s\<lparr>resourceAllocationOut := x\<rparr>)"
  by (simp add: keeps_def extends_def)

lemma CreatePlacedResource_keeps:
  "keeps (SubAllocationEvent never) s
     (snd (CreatePlacedResource env this heap off rd cv st s))"
proof -
  let ?P = "SubAllocationEvent never"
  let ?s1 = "if mHasResidencyManager this then emit (EvLockHeap heap) s else s"
  let ?s2 = "emit (EvCreatePlacedResource heap off) ?s1"
  let ?s3 = "if mHasResidencyManager this then emit (EvUnlockHeap heap) ?s2 else ?s2"
  have k1: "keeps ?P s ?s1" by (simp add: keeps_emit keeps_refl)
  have k2: "keeps ?P ?s1 ?s2" by (rule keeps_emit) simp
  have k3: "keeps ?P ?s2 ?s3" by (simp add: keeps_emit keeps_refl)
  have "snd (CreatePlacedResource env this heap off rd cv st s) = ?s3"
    by (simp add: CreatePlacedResource_def Let_def)
  then show ?thesis using keeps_trans[OF k1 keeps_trans[OF k2 k3]] by simp
qed

lemma CreatePlacedFn_keeps:
  "keeps (SubAllocationEvent never) s (snd (CreatePlacedFn env this nd cv st a s))"
proof -
  obtain hr r s1 where c: "CreatePlacedResource env this (mMemory a) (mOffset a) nd cv st s
      = ((hr, r), s1)"
    by (cases "CreatePlacedResource env this (mMemory a) (mOffset a) nd cv st s") auto
  have "keeps (SubAllocationEvent never) s s1"
    using CreatePlacedResource_keeps[of never s env this "mMemory a" "mOffset a" nd cv st] c
    by simp
  then show ?thesis using c keeps_out[of "SubAllocationEvent never" s1]
    by (auto simp: CreatePlacedFn_def Let_def intro: keeps_trans)
qed

lemma CreatePlacedFn_out:
  "\<not> FAILED (fst (CreatePlacedFn env this nd cv st a s)) \<Longrightarrow>
     \<exists>ra. resourceAllocationOut (snd (CreatePlacedFn env this nd cv st a s)) = Some ra
          \<and> mAllocator ra = mAllocator a"
  by (auto simp: CreatePlacedFn_def Let_def NewResourceAllocation_def split: prod.splits if_splits)

lemma CreateWithinResourceFn_keeps:
  "keeps (SubAllocationEvent never) s (snd (CreateWithinResourceFn env this a s))"
  by (simp add: CreateWithinResourceFn_def Let_def keeps_refl keeps_out)

lemma CreateWithinResourceFn_out:
  "\<not> FAILED (fst (CreateWithinResourceFn env this a s)) \<Longrightarrow>
     \<exists>ra. resourceAllocationOut (snd (CreateWithinResourceFn env this a s)) = Some ra
          \<and> mAllocator ra = mAllocator a"
  by (auto simp: CreateWithinResourceFn_def Let_def NewResourceAllocationWithin_def
      split: prod.splits if_splits)

lemma TryAllocateResource_keeps:
  assumes fn: "\<And>a s0. keeps (SubAllocationEvent n) s0 (snd (fn a s0))"
  shows "keeps (SubAllocationEvent n) s (snd (TryAllocateResource env allocator sz al n c p fn s))"
proof -
  let ?P = "SubAllocationEvent n"
  let ?s1 = "emit (EvTryAllocateMemory allocator sz al n c p) s"
  have e1: "keeps ?P s ?s1" by (rule keeps_emit) simp
  show ?thesis
  proof (cases "TryAllocateMemory env (trace s) allocator sz al n c p")
    case None
    then show ?thesis using e1 by (simp add: TryAllocateResource_def Let_def keeps_refl)
  next
    case (Some a)
    obtain hr s2 where r: "fn a ?s1 = (hr, s2)" by (cases "fn a ?s1")
    have e2: "keeps ?P ?s1 s2" using fn[of ?s1 a] r by simp
    have e3: "keeps ?P s2 (emit (EvDeallocateMemory allocator a) s2)"
      by (rule keeps_emit) simp
    show ?thesis using Some r e1 e2 e3
      by (auto simp: TryAllocateResource_def Let_def keeps_refl intro: keeps_trans)
  qed
qed

lemma TryAllocateResource_out:
  assumes fn: "\<And>a s0. \<not> FAILED (fst (fn a s0)) \<Longrightarrow>
                 \<exists>ra. resourceAllocationOut (snd (fn a s0)) = Some ra
                      \<and> mAllocator ra = mAllocator a"
    and ok: "SUCCEEDED (fst (TryAllocateResource env allocator sz al n c p fn s))"
  shows "ProducedBySubAllocation env n (snd (TryAllocateResource env allocator sz al n c p fn s))"
proof -
  let ?s1 = "emit (EvTryAllocateMemory allocator sz al n c p) s"
  have nf: "\<not> FAILED (fst (TryAllocateResource env allocator sz al n c p fn s))"
    using ok by (simp add: SUCCEEDED_iff)
  show ?thesis
  proof (cases "TryAllocateMemory env (trace s) allocator sz al n c p")
    case None
    then show ?thesis using nf
      by (auto simp: TryAllocateResource_def Let_def FAILED_simps split: if_splits)
  next
    case (Some a)
    obtain hr s2 where r: "fn a ?s1 = (hr, s2)" by (cases "fn a ?s1")
    have rej: "\<not> (GetMemorySize env allocator \<noteq> kInvalidSize \<and> sz > GetMemorySize env allocator)"
      using nf by (auto simp: TryAllocateResource_def FAILED_simps)
    have res: "TryAllocateResource env allocator sz al n c p fn s
        = (if FAILED hr then (hr, emit (EvDeallocateMemory allocator a) s2) else (hr, s2))"
      using Some r rej by (auto simp: TryAllocateResource_def Let_def)
    have nfh: "\<not> FAILED hr" using nf res by (auto split: if_splits)
    then obtain ra where "resourceAllocationOut s2 = Some ra" "mAllocator ra = mAllocator a"
      using fn[of a ?s1] r by auto
    then show ?thesis using res nfh Some unfolding ProducedBySubAllocation_def
      by simp blast
  qed
qed

subsection \<open>TryAllocateResource\<close>

text \<open>
  C3. When the allocator has a fixed memory size (\<open>GetMemorySize\<close> is not
  \<open>kInvalidSize\<close>) and the requested size is larger, \<open>TryAllocateResource\<close> fails at
  once: it returns \<open>E_FAIL\<close> and leaves the state as it was, so the trace has no call of
  \<open>TryAllocateMemory\<close> and nothing was created or released.
\<close>

theorem TryAllocateResource_rejects_oversized:
  assumes "GetMemorySize env allocator \<noteq> kInvalidSize"
    and "sz > GetMemorySize env allocator"
  shows "TryAllocateResource env allocator sz al n c p createResourceFn s = (E_FAIL, s)
         \<and> FAILED E_FAIL"
  using assms by (simp add: TryAllocateResource_def FAILED_simps)

theorem TryAllocateResource_rejects_oversized_witness:
  "GetMemorySize (exampleEnv 65536 (Some exampleAllocation) S_OK S_OK S_OK)
      (ResourceAllocatorOfType RESOURCE_HEAP_TYPE_DEFAULT_ALLOW_ALL_BUFFERS_AND_TEXTURES)
     \<noteq> kInvalidSize
   \<and> (131072 :: uint64_t)
       > GetMemorySize (exampleEnv 65536 (Some exampleAllocation) S_OK S_OK S_OK)
           (ResourceAllocatorOfType RESOURCE_HEAP_TYPE_DEFAULT_ALLOW_ALL_BUFFERS_AND_TEXTURES)
   \<and> TryAllocateResource (exampleEnv 65536 (Some exampleAllocation) S_OK S_OK S_OK)
        (ResourceAllocatorOfType RESOURCE_HEAP_TYPE_DEFAULT_ALLOW_ALL_BUFFERS_AND_TEXTURES)
        131072 65536 False False False
        (CreatePlacedFn (exampleEnv 65536 (Some exampleAllocation) S_OK S_OK S_OK)
           (exampleThis False)
           (exampleResource D3D12_RESOURCE_DIMENSION_BUFFER 0 131072) None
           D3D12_RESOURCE_STATE_GENERIC_READ)
        exampleState
      = (E_FAIL, exampleState)"
  using TryAllocateResource_rejects_oversized
    [of "exampleEnv 65536 (Some exampleAllocation) S_OK S_OK S_OK"
        "ResourceAllocatorOfType RESOURCE_HEAP_TYPE_DEFAULT_ALLOW_ALL_BUFFERS_AND_TEXTURES"
        131072 65536 False False False
        "CreatePlacedFn (exampleEnv 65536 (Some exampleAllocation) S_OK S_OK S_OK)
           (exampleThis False)
           (exampleResource D3D12_RESOURCE_DIMENSION_BUFFER 0 131072) None
           D3D12_RESOURCE_STATE_GENERIC_READ"
        exampleState]
  by (simp add: exampleEnv_def kInvalidSize_def)

text \<open>
  C1. When the size check passes, the allocator returns an allocation and the
  resource-creation callback then fails with \<open>hr\<close>, \<open>TryAllocateResource\<close> returns \<open>hr\<close>
  and the state the callback left, with one more call: \<open>DeallocateMemory\<close> of that same
  allocation on that same allocator. The three attempts of \<open>CreateResourceInternal\<close> all
  go through \<open>TryAllocateResource\<close>.
\<close>

theorem TryAllocateResource_deallocates_on_failure:
  assumes "\<not> (GetMemorySize env allocator \<noteq> kInvalidSize \<and> sz > GetMemorySize env allocator)"
    and "TryAllocateMemory env (trace s) allocator sz al n c p = Some allocation"
    and "createResourceFn allocation (emit (EvTryAllocateMemory allocator sz al n c p) s)
           = (hr, s2)"
    and "FAILED hr"
  shows "TryAllocateResource env allocator sz al n c p createResourceFn s
           = (hr, s2\<lparr>trace := trace s2 @ [EvDeallocateMemory allocator allocation]\<rparr>)"
  using assms by (auto simp: TryAllocateResource_def Let_def emit_def)

theorem TryAllocateResource_deallocates_on_failure_witness:
  "TryAllocateResource (exampleEnv kInvalidSize (Some exampleAllocation) E_FAIL S_OK S_OK)
        (ResourceAllocatorOfType RESOURCE_HEAP_TYPE_DEFAULT_ALLOW_ALL_BUFFERS_AND_TEXTURES)
        65536 65536 False False False
        (CreatePlacedFn (exampleEnv kInvalidSize (Some exampleAllocation) E_FAIL S_OK S_OK)
           (exampleThis False)
           (exampleResource D3D12_RESOURCE_DIMENSION_BUFFER 0 65536) None
           D3D12_RESOURCE_STATE_GENERIC_READ)
        exampleState
      = (E_FAIL,
         exampleState\<lparr>trace :=
           [EvTryAllocateMemory
              (ResourceAllocatorOfType RESOURCE_HEAP_TYPE_DEFAULT_ALLOW_ALL_BUFFERS_AND_TEXTURES)
              65536 65536 False False False,
            EvLockHeap (Some exampleHeap),
            EvCreatePlacedResource (Some exampleHeap) 65536,
            EvUnlockHeap (Some exampleHeap),
            EvDeallocateMemory
              (ResourceAllocatorOfType RESOURCE_HEAP_TYPE_DEFAULT_ALLOW_ALL_BUFFERS_AND_TEXTURES)
              exampleAllocation]\<rparr>)"
  using TryAllocateResource_deallocates_on_failure
    [of "exampleEnv kInvalidSize (Some exampleAllocation) E_FAIL S_OK S_OK"
        "ResourceAllocatorOfType RESOURCE_HEAP_TYPE_DEFAULT_ALLOW_ALL_BUFFERS_AND_TEXTURES"
        65536 exampleState 65536 False False False exampleAllocation
        "CreatePlacedFn (exampleEnv kInvalidSize (Some exampleAllocation) E_FAIL S_OK S_OK)
           (exampleThis False)
           (exampleResource D3D12_RESOURCE_DIMENSION_BUFFER 0 65536) None
           D3D12_RESOURCE_STATE_GENERIC_READ"
        E_FAIL
        "exampleState\<lparr>trace :=
           [EvTryAllocateMemory
              (ResourceAllocatorOfType RESOURCE_HEAP_TYPE_DEFAULT_ALLOW_ALL_BUFFERS_AND_TEXTURES)
              65536 65536 False False False,
            EvLockHeap (Some exampleHeap),
            EvCreatePlacedResource (Some exampleHeap) 65536,
            EvUnlockHeap (Some exampleHeap)]\<rparr>"]
  by (simp add: exampleEnv_def exampleThis_def exampleState_def exampleAllocation_def
        CreatePlacedFn_def CreatePlacedResource_def emit_def Let_def FAILED_simps)

subsection \<open>The attempts of CreateResourceInternal\<close>

lemma ReturnIfSucceeded_stage:
  assumes T: "keeps P s (snd t)"
    and O: "SUCCEEDED (fst t) \<Longrightarrow> ProducedBySubAllocation env nv (snd t)"
    and K: "\<And>s0. \<exists>s1. keeps P s0 s1 \<and>
              (k s0 = fb s1 \<or> (SUCCEEDED (fst (k s0)) \<and> snd (k s0) = s1
                               \<and> ProducedBySubAllocation env nv s1))"
  shows "\<exists>s1. keeps P s s1 \<and>
           (ReturnIfSucceeded t k = fb s1
            \<or> (SUCCEEDED (fst (ReturnIfSucceeded t k)) \<and> snd (ReturnIfSucceeded t k) = s1
               \<and> ProducedBySubAllocation env nv s1))"
proof (cases "SUCCEEDED (fst t)")
  case True
  then have "ReturnIfSucceeded t k = t" by (cases t) (simp add: ReturnIfSucceeded_def)
  then show ?thesis using T O True by auto
next
  case False
  then have r: "ReturnIfSucceeded t k = k (snd t)"
    by (cases t) (simp add: ReturnIfSucceeded_def)
  from K[of "snd t"] obtain s1 where
    "keeps P (snd t) s1"
    "k (snd t) = fb s1 \<or> (SUCCEEDED (fst (k (snd t))) \<and> snd (k (snd t)) = s1
                               \<and> ProducedBySubAllocation env nv s1)"
    by blast
  then show ?thesis using r keeps_trans[OF T] by auto
qed

lemma stage_refl:
  "\<exists>s1. keeps P sa s1 \<and>
      (fb sa = fb s1 \<or> (SUCCEEDED (fst (fb sa)) \<and> snd (fb sa) = s1
                               \<and> ProducedBySubAllocation env nv s1))"
  using keeps_refl by blast

lemma TryResourceHeap_stage:
  "\<exists>s1. keeps (SubAllocationEvent (ALLOCATION_FLAG_NEVER_ALLOCATE_MEMORY \<in> AllocFlags ad)) s s1 \<and>
      (TryResourceHeap env this ad nd ri t st cv s = CommittedFallback env this ad nd ri t st cv s1
       \<or> (SUCCEEDED (fst (TryResourceHeap env this ad nd ri t st cv s))
          \<and> snd (TryResourceHeap env this ad nd ri t st cv s) = s1
          \<and> ProducedBySubAllocation env
               (ALLOCATION_FLAG_NEVER_ALLOCATE_MEMORY \<in> AllocFlags ad) s1))"
proof (cases "mIsAlwaysCommitted this")
  case True
  then show ?thesis
    using stage_refl[where sa = s and fb = "CommittedFallback env this ad nd ri t st cv"]
    by (simp add: TryResourceHeap_def Let_def)
next
  case False
  then show ?thesis
    unfolding TryResourceHeap_def Let_def
    by (simp only: if_True not_False_eq_True)
       (rule ReturnIfSucceeded_stage,
        rule TryAllocateResource_keeps, rule CreatePlacedFn_keeps,
        rule TryAllocateResource_out, rule CreatePlacedFn_out, assumption, assumption,
        rule stage_refl)
qed


lemma TrySubAllocatedResourceHeap_stage:
  "\<exists>s1. keeps (SubAllocationEvent (ALLOCATION_FLAG_NEVER_ALLOCATE_MEMORY \<in> AllocFlags ad)) s s1 \<and>
      (TrySubAllocatedResourceHeap env this ad nd ri t st cv s
         = CommittedFallback env this ad nd ri t st cv s1
       \<or> (SUCCEEDED (fst (TrySubAllocatedResourceHeap env this ad nd ri t st cv s))
          \<and> snd (TrySubAllocatedResourceHeap env this ad nd ri t st cv s) = s1
          \<and> ProducedBySubAllocation env
               (ALLOCATION_FLAG_NEVER_ALLOCATE_MEMORY \<in> AllocFlags ad) s1))"
proof (cases "\<not> mIsAlwaysCommitted this
              \<and> ALLOCATION_FLAG_NEVER_SUBALLOCATE_MEMORY \<notin> AllocFlags ad")
  case False
  then show ?thesis
    using TryResourceHeap_stage[of ad s env this nd ri t st cv]
    by (auto simp: TrySubAllocatedResourceHeap_def Let_def)
next
  case True
  then have eq: "TrySubAllocatedResourceHeap env this ad nd ri t st cv s
      = ReturnIfSucceeded
          (TryAllocateResource env (ResourceAllocatorOfType t) (SizeInBytes ri) (InfoAlignment ri)
             (ALLOCATION_FLAG_NEVER_ALLOCATE_MEMORY \<in> AllocFlags ad)
             (ALLOCATION_FLAG_ALWAYS_PREFETCH_MEMORY \<in> AllocFlags ad) False
             (CreatePlacedFn env this nd cv st) s)
          (TryResourceHeap env this ad nd ri t st cv)"
    by (simp add: TrySubAllocatedResourceHeap_def Let_def)
  show ?thesis
    unfolding eq
    by (rule ReturnIfSucceeded_stage,
        rule TryAllocateResource_keeps, rule CreatePlacedFn_keeps,
        rule TryAllocateResource_out, rule CreatePlacedFn_out, assumption, assumption,
        rule TryResourceHeap_stage)
qed

lemma TryWithinResource_stage:
  "\<exists>s1. keeps (SubAllocationEvent (ALLOCATION_FLAG_NEVER_ALLOCATE_MEMORY \<in> AllocFlags ad)) s s1 \<and>
      (TryWithinResource env this ad nd ri t st cv s
         = CommittedFallback env this ad nd ri t st cv s1
       \<or> (SUCCEEDED (fst (TryWithinResource env this ad nd ri t st cv s))
          \<and> snd (TryWithinResource env this ad nd ri t st cv s) = s1
          \<and> ProducedBySubAllocation env
               (ALLOCATION_FLAG_NEVER_ALLOCATE_MEMORY \<in> AllocFlags ad) s1))"
proof (cases "ALLOCATION_FLAG_ALLOW_SUBALLOCATE_WITHIN_RESOURCE \<in> AllocFlags ad
            \<and> InfoAlignment ri > Width nd
            \<and> Dimension nd = D3D12_RESOURCE_DIMENSION_BUFFER
            \<and> GetInitialResourceState (HeapType ad) = Some st
            \<and> \<not> mIsAlwaysCommitted this
            \<and> ALLOCATION_FLAG_NEVER_SUBALLOCATE_MEMORY \<notin> AllocFlags ad")
  case False
  then have "TryWithinResource env this ad nd ri t st cv s
      = TrySubAllocatedResourceHeap env this ad nd ri t st cv s"
    unfolding TryWithinResource_def Let_def by auto
  then show ?thesis
    using TrySubAllocatedResourceHeap_stage[of ad s env this nd ri t st cv] by simp
next
  case True
  then have eq: "TryWithinResource env this ad nd ri t st cv s
      = ReturnIfSucceeded
          (TryAllocateResource env (BufferAllocatorOfType t) (Width nd)
             (if Alignment nd = 0 then 1 else Alignment nd)
             (ALLOCATION_FLAG_NEVER_ALLOCATE_MEMORY \<in> AllocFlags ad) False False
             (CreateWithinResourceFn env this) s)
          (TrySubAllocatedResourceHeap env this ad nd ri t st cv)"
    unfolding TryWithinResource_def Let_def by simp
  show ?thesis
    unfolding eq
    by (rule ReturnIfSucceeded_stage,
        rule TryAllocateResource_keeps, rule CreateWithinResourceFn_keeps,
        rule TryAllocateResource_out, rule CreateWithinResourceFn_out, assumption, assumption,
        rule TrySubAllocatedResourceHeap_stage)
qed


lemma CreateResourceInternal_unfold:
  assumes "GetResourceAllocationInfo env rd = (ri, nd)"
  shows "CreateResourceInternal env this ad rd st cv s =
     (if SizeInBytes ri = kInvalidSize then (E_OUTOFMEMORY, s)
      else if SizeInBytes ri > mMaxResourceHeapSize this
              \<or> SizeInBytes ri > mCapsMaxResourceSize this
      then (E_OUTOFMEMORY, s)
      else if GetResourceHeapType (Dimension nd) (HeapType ad) (Flags nd)
                (mResourceHeapTier this) = RESOURCE_HEAP_TYPE_INVALID
      then (E_INVALIDARG, s)
      else TryWithinResource env this ad nd ri
             (GetResourceHeapType (Dimension nd) (HeapType ad) (Flags nd)
                (mResourceHeapTier this)) st cv s)"
  using assms by (simp add: CreateResourceInternal_def Let_def)



text \<open>The definitions that evaluate a call on the example collaborators.\<close>

lemmas eval_defs =
  CreateResourceInternal_def GetResourceAllocationInfo_def GetResourceHeapType_def
  TryWithinResource_def TrySubAllocatedResourceHeap_def TryResourceHeap_def
  CommittedFallback_def TryAllocateResource_def ReturnIfSucceeded_def
  CreatePlacedFn_def CreatePlacedResource_def CreateWithinResourceFn_def
  CreateCommittedResource_def NewResourceAllocation_def NewResourceAllocationWithin_def
  GetHeapAlignment_def AlignTo_def emit_def Let_def SUCCEEDED_iff FAILED_simps
  exampleEnv_def exampleThis_def exampleState_def exampleResource_def exampleRequest_def
  exampleAllocation_def exampleHeap_def
  kInvalidSize_def kInvalidOffset_def D3D12_RESOURCE_HEAP_TIER_2_def
  D3D12_DEFAULT_RESOURCE_PLACEMENT_ALIGNMENT_def D3D12_SMALL_RESOURCE_PLACEMENT_ALIGNMENT_def
  D3D12_SMALL_MSAA_RESOURCE_PLACEMENT_ALIGNMENT_def
  D3D12_DEFAULT_MSAA_RESOURCE_PLACEMENT_ALIGNMENT_def
  D3D12_RESOURCE_FLAG_ALLOW_RENDER_TARGET_def D3D12_RESOURCE_FLAG_ALLOW_DEPTH_STENCIL_def
  D3D12_HEAP_FLAG_NONE_def D3D12_HEAP_FLAG_DENY_BUFFERS_def
  D3D12_HEAP_FLAG_DENY_RT_DS_TEXTURES_def D3D12_HEAP_FLAG_DENY_NON_RT_DS_TEXTURES_def
  D3D12_HEAP_FLAG_ALLOW_ALL_BUFFERS_AND_TEXTURES_def D3D12_HEAP_FLAG_ALLOW_ONLY_BUFFERS_def
  D3D12_HEAP_FLAG_ALLOW_ONLY_NON_RT_DS_TEXTURES_def D3D12_HEAP_FLAG_ALLOW_ONLY_RT_DS_TEXTURES_def
  D3D12_RESOURCE_STATE_GENERIC_READ_def D3D12_RESOURCE_STATE_COPY_DEST_def



text \<open>
  C7. When the allocation size computed for the resource is larger than the maximum
  resource heap size, or larger than the device's maximum resource size,
  \<open>CreateResourceInternal\<close> returns \<open>E_OUTOFMEMORY\<close> with the state unchanged: no allocator,
  device or residency call was made. So does \<open>CreateResource\<close> when its caller passed a
  pointer for the result.
\<close>

theorem CreateResourceInternal_rejects_above_maximum:
  assumes "SizeInBytes (fst (GetResourceAllocationInfo env rd)) > mMaxResourceHeapSize this
           \<or> SizeInBytes (fst (GetResourceAllocationInfo env rd)) > mCapsMaxResourceSize this"
  shows "CreateResourceInternal env this ad rd st cv s = (E_OUTOFMEMORY, s)
         \<and> CreateResource env this ad rd st cv False s = (E_OUTOFMEMORY, s)
         \<and> FAILED E_OUTOFMEMORY"
proof -
  obtain ri nd where g: "GetResourceAllocationInfo env rd = (ri, nd)"
    by (cases "GetResourceAllocationInfo env rd")
  have "CreateResourceInternal env this ad rd st cv s = (E_OUTOFMEMORY, s)"
    using assms by (simp add: CreateResourceInternal_unfold[OF g] g)
  then show ?thesis by (simp add: CreateResource_def FAILED_simps)
qed

theorem CreateResourceInternal_rejects_above_maximum_witness:
  "SizeInBytes (fst (GetResourceAllocationInfo (exampleEnv kInvalidSize None S_OK S_OK S_OK)
       (exampleResource D3D12_RESOURCE_DIMENSION_TEXTURE2D 0 8589934592)))
     > mMaxResourceHeapSize (exampleThis False)
   \<and> CreateResourceInternal (exampleEnv kInvalidSize None S_OK S_OK S_OK) (exampleThis False)
        (exampleRequest {}) (exampleResource D3D12_RESOURCE_DIMENSION_TEXTURE2D 0 8589934592)
        D3D12_RESOURCE_STATE_GENERIC_READ None exampleState
      = (E_OUTOFMEMORY, exampleState)"
proof -
  have h: "SizeInBytes (fst (GetResourceAllocationInfo (exampleEnv kInvalidSize None S_OK S_OK S_OK)
       (exampleResource D3D12_RESOURCE_DIMENSION_TEXTURE2D 0 8589934592)))
     > mMaxResourceHeapSize (exampleThis False)"
    by (simp add: GetResourceAllocationInfo_def exampleEnv_def exampleResource_def
          exampleThis_def Let_def)
  show ?thesis
    using CreateResourceInternal_rejects_above_maximum[OF disjI1[OF h],
            of "exampleRequest {}" D3D12_RESOURCE_STATE_GENERIC_READ None exampleState] h
    by simp
qed

text \<open>
  C10, as the code has it. A resource that is not a buffer with alignment 0 is sized by the
  device. When the size that the device reports for it is 0 (the report for the
  descriptor that \<open>GetResourceAllocationInfo\<close> settles on, which is the last one it asks
  for), \<open>GetResourceAllocationInfo\<close> returns \<open>kInvalidSize\<close> and
  \<open>CreateResourceInternal\<close> returns \<open>E_OUTOFMEMORY\<close> with the state unchanged: no
  allocator was consulted.
\<close>

theorem CreateResourceInternal_rejects_zero_size:
  assumes nb: "\<not> (Alignment rd = 0 \<and> Dimension rd = D3D12_RESOURCE_DIMENSION_BUFFER)"
    and zero: "SizeInBytes (device_GetResourceAllocationInfo env
                 (snd (GetResourceAllocationInfo env rd))) = 0"
  shows "SizeInBytes (fst (GetResourceAllocationInfo env rd)) = kInvalidSize
         \<and> CreateResourceInternal env this ad rd st cv s = (E_OUTOFMEMORY, s)
         \<and> FAILED E_OUTOFMEMORY"
proof -
  have sz: "SizeInBytes (fst (GetResourceAllocationInfo env rd)) = kInvalidSize"
    using nb zero by (auto simp: GetResourceAllocationInfo_def Let_def split: if_splits)
  obtain ri nd where g: "GetResourceAllocationInfo env rd = (ri, nd)"
    by (cases "GetResourceAllocationInfo env rd")
  show ?thesis using sz by (simp add: CreateResourceInternal_unfold[OF g] g FAILED_simps)
qed

theorem CreateResourceInternal_rejects_zero_size_witness:
  "CreateResourceInternal (exampleEnv kInvalidSize None S_OK S_OK S_OK) (exampleThis False)
        (exampleRequest {}) (exampleResource D3D12_RESOURCE_DIMENSION_TEXTURE2D 0 0)
        D3D12_RESOURCE_STATE_GENERIC_READ None exampleState
      = (E_OUTOFMEMORY, exampleState)"
  using CreateResourceInternal_rejects_zero_size
    [of "exampleResource D3D12_RESOURCE_DIMENSION_TEXTURE2D 0 0"
        "exampleEnv kInvalidSize None S_OK S_OK S_OK" "exampleThis False" "exampleRequest {}"
        D3D12_RESOURCE_STATE_GENERIC_READ None exampleState]
  by (simp add: exampleEnv_def exampleResource_def GetResourceAllocationInfo_def Let_def)

text \<open>
  C10, as stated, fails for a buffer with alignment 0 and width 0 on a device that reports
  size 0 for it: the device is not asked, the size is \<open>AlignTo 0 65536 = 0\<close>, which is not
  the sentinel, and the request goes on to the allocators with size 0 and ends as a
  committed resource of size 0.
\<close>

theorem zero_size_buffer_reaches_allocators_counterexample:
  "SizeInBytes (device_GetResourceAllocationInfo (exampleEnv kInvalidSize None S_OK S_OK S_OK)
       (exampleResource D3D12_RESOURCE_DIMENSION_BUFFER 0 0)) = 0
   \<and> fst (CreateResourceInternal (exampleEnv kInvalidSize None S_OK S_OK S_OK)
        (exampleThis False) (exampleRequest {})
        (exampleResource D3D12_RESOURCE_DIMENSION_BUFFER 0 0)
        D3D12_RESOURCE_STATE_GENERIC_READ None exampleState) = S_OK
   \<and> trace (snd (CreateResourceInternal (exampleEnv kInvalidSize None S_OK S_OK S_OK)
        (exampleThis False) (exampleRequest {})
        (exampleResource D3D12_RESOURCE_DIMENSION_BUFFER 0 0)
        D3D12_RESOURCE_STATE_GENERIC_READ None exampleState))
     = [EvTryAllocateMemory
          (ResourceAllocatorOfType RESOURCE_HEAP_TYPE_DEFAULT_ALLOW_ALL_BUFFERS_AND_TEXTURES)
          0 65536 False False False,
        EvTryAllocateMemory
          (ResourceHeapAllocatorOfType RESOURCE_HEAP_TYPE_DEFAULT_ALLOW_ALL_BUFFERS_AND_TEXTURES)
          0 4194304 False False False,
        EvEvict 0 DXGI_MEMORY_SEGMENT_GROUP_LOCAL,
        EvCreateCommittedResource D3D12_HEAP_TYPE_DEFAULT 0,
        EvInsertHeap \<lparr> hPageable = 9, hMemorySegmentGroup = DXGI_MEMORY_SEGMENT_GROUP_LOCAL,
                       hSize = 0 \<rparr>]"
  by (simp add: eval_defs)

text \<open>
  C5, as the code has it. A committed allocation that the last resort produces is owned by
  the facade, has the method \<open>kStandalone\<close>, no block, the offset \<open>kInvalidOffset\<close> (a
  committed resource has no offset in a heap), and a heap of its own whose size is the
  allocation size computed for the request.
\<close>

theorem CommittedFallback_allocation:
  assumes run: "CommittedFallback env this ad nd ri t st cv s = (hr, s')"
    and ok: "\<not> FAILED hr"
  shows "\<exists>a heap. resourceAllocationOut s' = Some a
           \<and> mAllocator a = Some ThisResourceAllocator
           \<and> mMethod a = kStandalone
           \<and> mBlock a = None
           \<and> mOffset a = kInvalidOffset
           \<and> mMemory a = Some heap
           \<and> hSize heap = SizeInBytes ri
           \<and> GetSize a = SizeInBytes ri"
proof -
  have nv: "ALLOCATION_FLAG_NEVER_ALLOCATE_MEMORY \<notin> AllocFlags ad"
    using run ok by (auto simp: CommittedFallback_def FAILED_simps)
  obtain hr1 created s1 where c: "CreateCommittedResource env this (HeapType ad)
      (GetHeapFlags t) (SizeInBytes ri) nd cv st s = (hr1, created, s1)"
    by (cases "CreateCommittedResource env this (HeapType ad)
      (GetHeapFlags t) (SizeInBytes ri) nd cv st s") auto
  have nf: "\<not> FAILED hr1"
    using run ok nv c by (auto simp: CommittedFallback_def split: if_splits)
  have "\<exists>r heap. created = Some (r, heap) \<and> hSize heap = SizeInBytes ri"
    using c nf by (auto simp: CreateCommittedResource_def Let_def FAILED_simps split: if_splits)
  then obtain r heap where cr: "created = Some (r, heap)" and hs: "hSize heap = SizeInBytes ri"
    by blast
  have "resourceAllocationOut s' = Some (NewResourceAllocation (mHasResidencyManager this)
          (Some ThisResourceAllocator) kInvalidOffset None kStandalone r (Some heap))"
    using run nv c nf cr by (auto simp: CommittedFallback_def)
  then show ?thesis using hs by (simp add: NewResourceAllocation_def GetSize_def)
qed

theorem CommittedFallback_allocation_witness:
  "\<exists>a heap. resourceAllocationOut
        (snd (CommittedFallback (exampleEnv kInvalidSize None S_OK S_OK S_OK) (exampleThis True)
           (exampleRequest {}) (exampleResource D3D12_RESOURCE_DIMENSION_TEXTURE2D 0 65536)
           \<lparr> SizeInBytes = 65536, InfoAlignment = 65536 \<rparr>
           RESOURCE_HEAP_TYPE_DEFAULT_ALLOW_ALL_BUFFERS_AND_TEXTURES
           D3D12_RESOURCE_STATE_GENERIC_READ None exampleState)) = Some a
      \<and> mAllocator a = Some ThisResourceAllocator
      \<and> mMethod a = kStandalone
      \<and> mBlock a = None
      \<and> mOffset a = kInvalidOffset
      \<and> mMemory a = Some heap
      \<and> hSize heap = 65536
      \<and> GetSize a = 65536"
proof -
  have ok: "\<not> FAILED (fst (CommittedFallback (exampleEnv kInvalidSize None S_OK S_OK S_OK)
           (exampleThis True)
           (exampleRequest {}) (exampleResource D3D12_RESOURCE_DIMENSION_TEXTURE2D 0 65536)
           \<lparr> SizeInBytes = 65536, InfoAlignment = 65536 \<rparr>
           RESOURCE_HEAP_TYPE_DEFAULT_ALLOW_ALL_BUFFERS_AND_TEXTURES
           D3D12_RESOURCE_STATE_GENERIC_READ None exampleState))"
    by (simp add: eval_defs)
  show ?thesis
    using CommittedFallback_allocation[OF prod.collapse[symmetric] ok] by simp
qed

text \<open>
  C5, as stated, fails: the committed allocation of a 64 KiB texture has the offset
  \<open>kInvalidOffset\<close>, which is not 0.
\<close>

theorem committed_allocation_offset_counterexample:
  "fst (CreateResourceInternal (exampleEnv kInvalidSize None S_OK S_OK S_OK) (exampleThis True)
      (exampleRequest {}) (exampleResource D3D12_RESOURCE_DIMENSION_TEXTURE2D 0 65536)
      D3D12_RESOURCE_STATE_GENERIC_READ None exampleState) = S_OK
   \<and> map_option mOffset (resourceAllocationOut
        (snd (CreateResourceInternal (exampleEnv kInvalidSize None S_OK S_OK S_OK)
           (exampleThis True)
           (exampleRequest {}) (exampleResource D3D12_RESOURCE_DIMENSION_TEXTURE2D 0 65536)
           D3D12_RESOURCE_STATE_GENERIC_READ None exampleState)))
       = Some 0xFFFFFFFFFFFFFFFF
   \<and> map_option mOffset (resourceAllocationOut
        (snd (CreateResourceInternal (exampleEnv kInvalidSize None S_OK S_OK S_OK)
           (exampleThis True)
           (exampleRequest {}) (exampleResource D3D12_RESOURCE_DIMENSION_TEXTURE2D 0 65536)
           D3D12_RESOURCE_STATE_GENERIC_READ None exampleState)))
       \<noteq> Some 0
   \<and> map_option mMethod (resourceAllocationOut
        (snd (CreateResourceInternal (exampleEnv kInvalidSize None S_OK S_OK S_OK)
           (exampleThis True)
           (exampleRequest {}) (exampleResource D3D12_RESOURCE_DIMENSION_TEXTURE2D 0 65536)
           D3D12_RESOURCE_STATE_GENERIC_READ None exampleState)))
       = Some kStandalone"
  by (simp add: eval_defs)

text \<open>
  C6. With \<open>ALLOCATOR_FLAG_ALWAYS_IN_BUDGET\<close> and a residency manager,
  \<open>CreateCommittedResource\<close> first calls \<open>Evict\<close> with the resource size and the memory
  segment group of the heap type: that call is the first that it adds to the trace. When
  \<open>Evict\<close> fails, it is the only one: the error is returned and no resource was created.
\<close>

theorem CreateCommittedResource_evicts_first:
  assumes budget: "mIsAlwaysInBudget this" and rm: "mHasResidencyManager this"
    and run: "CreateCommittedResource env this heapType heapFlags resourceSize rd cv st s
                = (hr, created, s')"
  shows "(\<exists>rest. trace s' = trace s
             @ EvEvict resourceSize (GetPreferredMemorySegmentGroup env (mIsUMA this) heapType)
             # rest)
         \<and> (FAILED (Evict env (trace s) resourceSize
                       (GetPreferredMemorySegmentGroup env (mIsUMA this) heapType))
              \<longrightarrow> hr = Evict env (trace s) resourceSize
                         (GetPreferredMemorySegmentGroup env (mIsUMA this) heapType)
                  \<and> created = None
                  \<and> s' = emit (EvEvict resourceSize
                                 (GetPreferredMemorySegmentGroup env (mIsUMA this) heapType)) s)"
  using assms
  by (auto simp: CreateCommittedResource_def Let_def emit_def FAILED_simps split: if_splits)

theorem CreateCommittedResource_evicts_first_witness:
  "CreateCommittedResource (exampleEnv kInvalidSize None S_OK S_OK E_FAIL) (exampleThis False)
      D3D12_HEAP_TYPE_DEFAULT 0 65536
      (exampleResource D3D12_RESOURCE_DIMENSION_TEXTURE2D 0 65536) None
      D3D12_RESOURCE_STATE_GENERIC_READ exampleState
    = (E_FAIL, None,
       exampleState\<lparr>trace := [EvEvict 65536 DXGI_MEMORY_SEGMENT_GROUP_LOCAL]\<rparr>)"
proof -
  have b: "mIsAlwaysInBudget (exampleThis False)" and r: "mHasResidencyManager (exampleThis False)"
    by (simp_all add: exampleThis_def)
  have run: "CreateCommittedResource (exampleEnv kInvalidSize None S_OK S_OK E_FAIL)
      (exampleThis False) D3D12_HEAP_TYPE_DEFAULT 0 65536
      (exampleResource D3D12_RESOURCE_DIMENSION_TEXTURE2D 0 65536) None
      D3D12_RESOURCE_STATE_GENERIC_READ exampleState
    = (E_FAIL, None,
       exampleState\<lparr>trace := [EvEvict 65536 DXGI_MEMORY_SEGMENT_GROUP_LOCAL]\<rparr>)"
    by (simp add: eval_defs)
  show ?thesis
    using CreateCommittedResource_evicts_first[OF b r run] run by simp
qed

lemma keeps_trace: "keeps P s s' \<Longrightarrow> \<exists>es. trace s' = trace s @ es"
  by (auto simp: keeps_def extends_def)

lemma CreateCommittedResource_trace:
  "\<exists>es. trace (snd (snd (CreateCommittedResource env this ht hf sz rd cv st s))) = trace s @ es"
  by (simp add: CreateCommittedResource_def Let_def emit_def FAILED_simps)

lemma CommittedFallback_trace:
  "\<exists>es. trace (snd (CommittedFallback env this ad nd ri t st cv s)) = trace s @ es"
proof -
  obtain hr1 created s1 where c: "CreateCommittedResource env this (HeapType ad)
      (GetHeapFlags t) (SizeInBytes ri) nd cv st s = (hr1, created, s1)"
    by (cases "CreateCommittedResource env this (HeapType ad)
      (GetHeapFlags t) (SizeInBytes ri) nd cv st s") auto
  obtain es where "trace s1 = trace s @ es"
    using CreateCommittedResource_trace[of env this "HeapType ad" "GetHeapFlags t"
        "SizeInBytes ri" nd cv st s] c by auto
  then show ?thesis using c
    by (auto simp: CommittedFallback_def split: option.splits)
qed

lemma TryResourceHeap_trace:
  "\<exists>es. trace (snd (TryResourceHeap env this ad nd ri t st cv s)) = trace s @ es"
proof -
  from TryResourceHeap_stage[of ad s env this nd ri t st cv]
  obtain s1 where k: "keeps (SubAllocationEvent (ALLOCATION_FLAG_NEVER_ALLOCATE_MEMORY
                              \<in> AllocFlags ad)) s s1"
    and d: "TryResourceHeap env this ad nd ri t st cv s
              = CommittedFallback env this ad nd ri t st cv s1
            \<or> snd (TryResourceHeap env this ad nd ri t st cv s) = s1"
    by blast
  obtain es1 where e1: "trace s1 = trace s @ es1" using keeps_trace[OF k] by blast
  obtain es2 where e2: "trace (snd (CommittedFallback env this ad nd ri t st cv s1))
      = trace s1 @ es2"
    using CommittedFallback_trace by blast
  show ?thesis using d e1 e2 by auto
qed

lemma TryAllocateResource_first_event:
  assumes nr: "\<not> (GetMemorySize env allocator \<noteq> kInvalidSize
                  \<and> sz > GetMemorySize env allocator)"
    and fn: "\<And>a s0. keeps P s0 (snd (fn a s0))"
  shows "\<exists>es. trace (snd (TryAllocateResource env allocator sz al n c p fn s))
           = trace s @ EvTryAllocateMemory allocator sz al n c p # es"
proof (cases "TryAllocateMemory env (trace s) allocator sz al n c p")
  case None
  then show ?thesis using nr by (auto simp: TryAllocateResource_def Let_def emit_def)
next
  case (Some a)
  let ?s1 = "emit (EvTryAllocateMemory allocator sz al n c p) s"
  obtain hr s2 where r: "fn a ?s1 = (hr, s2)" by (cases "fn a ?s1")
  obtain es where "trace s2 = trace ?s1 @ es"
    using keeps_trace[OF fn[of ?s1 a]] r by auto
  then show ?thesis using nr Some r
    by (auto simp: TryAllocateResource_def Let_def emit_def)
qed

text \<open>
  C2, what the code does. When the second attempt is made and its size check passes, the
  first call it adds to the trace is \<open>TryAllocateMemory\<close> on the allocator of the resource
  heap type, with the request's prefetch flag as \<open>cacheSize\<close> and \<open>False\<close> as
  \<open>prefetchMemory\<close>.
\<close>

theorem TrySubAllocatedResourceHeap_passes_prefetch_as_cacheSize:
  assumes "\<not> mIsAlwaysCommitted this"
    and "ALLOCATION_FLAG_NEVER_SUBALLOCATE_MEMORY \<notin> AllocFlags ad"
    and nr: "\<not> (GetMemorySize env (ResourceAllocatorOfType t) \<noteq> kInvalidSize
             \<and> SizeInBytes ri > GetMemorySize env (ResourceAllocatorOfType t))"
  shows "\<exists>rest. trace (snd (TrySubAllocatedResourceHeap env this ad nd ri t st cv s))
           = trace s
             @ EvTryAllocateMemory (ResourceAllocatorOfType t) (SizeInBytes ri) (InfoAlignment ri)
                 (ALLOCATION_FLAG_NEVER_ALLOCATE_MEMORY \<in> AllocFlags ad)
                 (ALLOCATION_FLAG_ALWAYS_PREFETCH_MEMORY \<in> AllocFlags ad)
                 False
             # rest"
proof -
  let ?t = "TryAllocateResource env (ResourceAllocatorOfType t) (SizeInBytes ri) (InfoAlignment ri)
             (ALLOCATION_FLAG_NEVER_ALLOCATE_MEMORY \<in> AllocFlags ad)
             (ALLOCATION_FLAG_ALWAYS_PREFETCH_MEMORY \<in> AllocFlags ad) False
             (CreatePlacedFn env this nd cv st) s"
  have eq: "TrySubAllocatedResourceHeap env this ad nd ri t st cv s
      = ReturnIfSucceeded ?t (TryResourceHeap env this ad nd ri t st cv)"
    using assms by (simp add: TrySubAllocatedResourceHeap_def Let_def)
  have fnk: "\<And>a s0. keeps (SubAllocationEvent True) s0
                         (snd (CreatePlacedFn env this nd cv st a s0))"
    by (rule CreatePlacedFn_keeps)
  obtain es where e: "trace (snd ?t) = trace s
      @ EvTryAllocateMemory (ResourceAllocatorOfType t) (SizeInBytes ri) (InfoAlignment ri)
                 (ALLOCATION_FLAG_NEVER_ALLOCATE_MEMORY \<in> AllocFlags ad)
                 (ALLOCATION_FLAG_ALWAYS_PREFETCH_MEMORY \<in> AllocFlags ad)
                 False # es"
    using TryAllocateResource_first_event[where fn = "CreatePlacedFn env this nd cv st"
            and P = "SubAllocationEvent True", OF nr fnk] by blast
  obtain es2 where e2: "trace (snd (TryResourceHeap env this ad nd ri t st cv (snd ?t)))
      = trace (snd ?t) @ es2"
    using TryResourceHeap_trace by blast
  have "ReturnIfSucceeded ?t (TryResourceHeap env this ad nd ri t st cv) = ?t
        \<or> ReturnIfSucceeded ?t (TryResourceHeap env this ad nd ri t st cv)
           = TryResourceHeap env this ad nd ri t st cv (snd ?t)"
    by (cases ?t) (simp add: ReturnIfSucceeded_def)
  then show ?thesis using eq e e2 by auto
qed

theorem TrySubAllocatedResourceHeap_passes_prefetch_as_cacheSize_witness:
  "trace (snd (CreateResourceInternal (exampleEnv kInvalidSize (Some exampleAllocation) S_OK S_OK S_OK)
        (exampleThis False) (exampleRequest {ALLOCATION_FLAG_ALWAYS_PREFETCH_MEMORY})
        (exampleResource D3D12_RESOURCE_DIMENSION_TEXTURE2D 0 65536)
        D3D12_RESOURCE_STATE_GENERIC_READ None exampleState))
     = [EvTryAllocateMemory
          (ResourceAllocatorOfType RESOURCE_HEAP_TYPE_DEFAULT_ALLOW_ALL_BUFFERS_AND_TEXTURES)
          65536 65536 False True False,
        EvLockHeap (Some exampleHeap),
        EvCreatePlacedResource (Some exampleHeap) 65536,
        EvUnlockHeap (Some exampleHeap)]
   \<and> (\<exists>rest. trace (snd (TrySubAllocatedResourceHeap
          (exampleEnv kInvalidSize (Some exampleAllocation) S_OK S_OK S_OK)
          (exampleThis False) (exampleRequest {ALLOCATION_FLAG_ALWAYS_PREFETCH_MEMORY})
          (exampleResource D3D12_RESOURCE_DIMENSION_TEXTURE2D 0 65536)
          \<lparr> SizeInBytes = 65536, InfoAlignment = 65536 \<rparr>
          RESOURCE_HEAP_TYPE_DEFAULT_ALLOW_ALL_BUFFERS_AND_TEXTURES
          D3D12_RESOURCE_STATE_GENERIC_READ None exampleState))
        = EvTryAllocateMemory
          (ResourceAllocatorOfType RESOURCE_HEAP_TYPE_DEFAULT_ALLOW_ALL_BUFFERS_AND_TEXTURES)
          65536 65536 False True False # rest)"
proof -
  have a: "\<not> mIsAlwaysCommitted (exampleThis False)" by (simp add: exampleThis_def)
  have b: "ALLOCATION_FLAG_NEVER_SUBALLOCATE_MEMORY
      \<notin> AllocFlags (exampleRequest {ALLOCATION_FLAG_ALWAYS_PREFETCH_MEMORY})"
    by (simp add: exampleRequest_def)
  have c: "\<not> (GetMemorySize (exampleEnv kInvalidSize (Some exampleAllocation) S_OK S_OK S_OK)
        (ResourceAllocatorOfType RESOURCE_HEAP_TYPE_DEFAULT_ALLOW_ALL_BUFFERS_AND_TEXTURES)
        \<noteq> kInvalidSize
      \<and> SizeInBytes \<lparr> SizeInBytes = 65536, InfoAlignment = 65536 \<rparr>
        > GetMemorySize (exampleEnv kInvalidSize (Some exampleAllocation) S_OK S_OK S_OK)
        (ResourceAllocatorOfType RESOURCE_HEAP_TYPE_DEFAULT_ALLOW_ALL_BUFFERS_AND_TEXTURES))"
    by (simp add: exampleEnv_def)
  have d: "trace (snd (CreateResourceInternal (exampleEnv kInvalidSize (Some exampleAllocation) S_OK S_OK S_OK)
        (exampleThis False) (exampleRequest {ALLOCATION_FLAG_ALWAYS_PREFETCH_MEMORY})
        (exampleResource D3D12_RESOURCE_DIMENSION_TEXTURE2D 0 65536)
        D3D12_RESOURCE_STATE_GENERIC_READ None exampleState))
     = [EvTryAllocateMemory
          (ResourceAllocatorOfType RESOURCE_HEAP_TYPE_DEFAULT_ALLOW_ALL_BUFFERS_AND_TEXTURES)
          65536 65536 False True False,
        EvLockHeap (Some exampleHeap),
        EvCreatePlacedResource (Some exampleHeap) 65536,
        EvUnlockHeap (Some exampleHeap)]"
    by (simp add: eval_defs)
  show ?thesis
    using TrySubAllocatedResourceHeap_passes_prefetch_as_cacheSize[OF a b c,
      of "exampleResource D3D12_RESOURCE_DIMENSION_TEXTURE2D 0 65536"
         D3D12_RESOURCE_STATE_GENERIC_READ None exampleState] d
    by (simp add: exampleState_def exampleRequest_def)
qed

text \<open>
  C9. \<open>ReleaseThis\<close> on an allocation that records an allocator calls \<open>DeallocateMemory\<close>
  on that allocator, with the allocation, and leaves the allocation released. A second
  \<open>ReleaseThis\<close> changes neither the allocation nor the trace: it deallocates nothing.
\<close>

theorem ReleaseThis_routes_and_is_idempotent:
  assumes "mAllocator a = Some allocator"
  shows "ReleaseThis (Some a) tr
           = (Some (Reset (a\<lparr>mResource := None\<rparr>)),
              tr @ [EvDeallocateMemory allocator (MemoryAllocation.truncate a)])
         \<and> ReleaseThis (fst (ReleaseThis (Some a) tr)) (snd (ReleaseThis (Some a) tr))
           = ReleaseThis (Some a) tr"
  using assms by (simp add: ReleaseThis_def Reset_def Let_def)

theorem ReleaseThis_routes_and_is_idempotent_witness:
  "snd (ReleaseThis (Some (NewResourceAllocation True
          (Some (ResourceAllocatorOfType RESOURCE_HEAP_TYPE_DEFAULT_ALLOW_ALL_BUFFERS_AND_TEXTURES))
          65536 (Some \<lparr> bOffset = 65536, bSize = 65536 \<rparr>) kSubAllocated 8 (Some exampleHeap))) [])
     = [EvDeallocateMemory
          (ResourceAllocatorOfType RESOURCE_HEAP_TYPE_DEFAULT_ALLOW_ALL_BUFFERS_AND_TEXTURES)
          exampleAllocation]
   \<and> snd (ReleaseThis
        (fst (ReleaseThis (Some (NewResourceAllocation True
          (Some (ResourceAllocatorOfType RESOURCE_HEAP_TYPE_DEFAULT_ALLOW_ALL_BUFFERS_AND_TEXTURES))
          65536 (Some \<lparr> bOffset = 65536, bSize = 65536 \<rparr>) kSubAllocated 8 (Some exampleHeap))) []))
        (snd (ReleaseThis (Some (NewResourceAllocation True
          (Some (ResourceAllocatorOfType RESOURCE_HEAP_TYPE_DEFAULT_ALLOW_ALL_BUFFERS_AND_TEXTURES))
          65536 (Some \<lparr> bOffset = 65536, bSize = 65536 \<rparr>) kSubAllocated 8 (Some exampleHeap))) [])))
     = [EvDeallocateMemory
          (ResourceAllocatorOfType RESOURCE_HEAP_TYPE_DEFAULT_ALLOW_ALL_BUFFERS_AND_TEXTURES)
          exampleAllocation]"
  using ReleaseThis_routes_and_is_idempotent
    [of "NewResourceAllocation True
          (Some (ResourceAllocatorOfType RESOURCE_HEAP_TYPE_DEFAULT_ALLOW_ALL_BUFFERS_AND_TEXTURES))
          65536 (Some \<lparr> bOffset = 65536, bSize = 65536 \<rparr>) kSubAllocated 8 (Some exampleHeap)"
        "ResourceAllocatorOfType RESOURCE_HEAP_TYPE_DEFAULT_ALLOW_ALL_BUFFERS_AND_TEXTURES" "[]"]
  by (simp add: NewResourceAllocation_def exampleAllocation_def MemoryAllocation.truncate_def
        ReleaseThis_def Reset_def Let_def)

subsection \<open>The facade's counters\<close>

lemma AddCounters_zero: "AddCounters 0 0 info = info"
  by (simp add: AddCounters_def)

lemma AddCounters_add: "AddCounters a b (AddCounters c d info) = AddCounters (a + c) (b + d) info"
  by (simp add: AddCounters_def add.assoc add.commute)

lemma CreateCommittedResource_mInfo:
  "mInfo (snd (snd (CreateCommittedResource env this ht hf sz rd cv st s))) = mInfo s"
  by (simp add: CreateCommittedResource_def Let_def emit_def FAILED_simps)

lemma CommittedFallback_accounts:
  assumes run: "CommittedFallback env this ad nd ri t st cv s = (hr, s')"
  shows "mInfo s' = AddCounters (of_nat (length (filter IsCommitted (NewAllocations hr s'))))
                     (sum_list (map GetSize (filter IsCommitted (NewAllocations hr s'))))
                     (mInfo s)"
proof (cases "FAILED hr")
  case True
  obtain hr1 created s1 where c: "CreateCommittedResource env this (HeapType ad)
      (GetHeapFlags t) (SizeInBytes ri) nd cv st s = (hr1, created, s1)"
    by (cases "CreateCommittedResource env this (HeapType ad)
      (GetHeapFlags t) (SizeInBytes ri) nd cv st s") auto
  have m1: "mInfo s1 = mInfo s"
    using CreateCommittedResource_mInfo[of env this "HeapType ad" "GetHeapFlags t"
        "SizeInBytes ri" nd cv st s] c by simp
  have "mInfo s' = mInfo s"
    using run True c m1 by (auto simp: CommittedFallback_def FAILED_simps split: if_splits option.splits)
  then show ?thesis using True by (simp add: NewAllocations_def SUCCEEDED_iff AddCounters_zero)
next
  case False
  have nv: "ALLOCATION_FLAG_NEVER_ALLOCATE_MEMORY \<notin> AllocFlags ad"
    using run False by (auto simp: CommittedFallback_def FAILED_simps)
  obtain hr1 created s1 where c: "CreateCommittedResource env this (HeapType ad)
      (GetHeapFlags t) (SizeInBytes ri) nd cv st s = (hr1, created, s1)"
    by (cases "CreateCommittedResource env this (HeapType ad)
      (GetHeapFlags t) (SizeInBytes ri) nd cv st s") auto
  have m1: "mInfo s1 = mInfo s"
    using CreateCommittedResource_mInfo[of env this "HeapType ad" "GetHeapFlags t"
        "SizeInBytes ri" nd cv st s] c by simp
  have nf: "\<not> FAILED hr1"
    using run False nv c by (auto simp: CommittedFallback_def split: if_splits)
  have "\<exists>r heap. created = Some (r, heap)"
    using c nf by (auto simp: CreateCommittedResource_def Let_def FAILED_simps split: if_splits)
  then obtain r heap where cr: "created = Some (r, heap)" by blast
  have s'_eq: "s' = s1\<lparr> mInfo := AddCounters 1 (hSize heap) (mInfo s1),
                     resourceAllocationOut := Some
                       (NewResourceAllocation (mHasResidencyManager this)
                          (Some ThisResourceAllocator) kInvalidOffset None kStandalone
                          r (Some heap)) \<rparr>"
    using run nv c nf cr by (auto simp: CommittedFallback_def AddCounters_def)
  show ?thesis unfolding s'_eq using False m1
    by (simp add: NewAllocations_def SUCCEEDED_iff IsCommitted_def NewResourceAllocation_def
          GetSize_def)
qed

lemma ProducedBySubAllocation_accounts:
  assumes ok: "\<forall>tr allocator sz al n c p a.
        TryAllocateMemory env tr allocator sz al n c p = Some a \<longrightarrow> \<not> IsCommitted a"
    and p: "ProducedBySubAllocation env nv s'"
  shows "filter IsCommitted (NewAllocations hr s') = []"
proof -
  from p obtain ra a tr allocator sz al c pp where
    o: "resourceAllocationOut s' = Some ra" and ma: "mAllocator ra = mAllocator a"
    and t: "TryAllocateMemory env tr allocator sz al nv c pp = Some a"
    unfolding ProducedBySubAllocation_def by blast
  have na: "\<not> IsCommitted a" using ok t by blast
  have nra: "\<not> IsCommitted ra" using na ma by (simp add: IsCommitted_def)
  show ?thesis
  proof (cases "SUCCEEDED hr")
    case True
    then show ?thesis by (simp add: NewAllocations_def o nra)
  next
    case False
    then show ?thesis by (simp add: NewAllocations_def)
  qed
qed

lemma CreateResourceInternal_accounts:
  assumes ok: "\<forall>tr allocator sz al n c p a.
        TryAllocateMemory env tr allocator sz al n c p = Some a \<longrightarrow> \<not> IsCommitted a"
    and run: "CreateResourceInternal env this ad rd st cv s = (hr, s')"
  shows "mInfo s' = AddCounters (of_nat (length (filter IsCommitted (NewAllocations hr s'))))
                     (sum_list (map GetSize (filter IsCommitted (NewAllocations hr s'))))
                     (mInfo s)"
proof -
  obtain ri nd where g: "GetResourceAllocationInfo env rd = (ri, nd)"
    by (cases "GetResourceAllocationInfo env rd")
  let ?t = "GetResourceHeapType (Dimension nd) (HeapType ad) (Flags nd) (mResourceHeapTier this)"
  note u = CreateResourceInternal_unfold[OF g, of this ad st cv s]
  show ?thesis
  proof (cases "SizeInBytes ri = kInvalidSize \<or> SizeInBytes ri > mMaxResourceHeapSize this
                \<or> SizeInBytes ri > mCapsMaxResourceSize this
                \<or> ?t = RESOURCE_HEAP_TYPE_INVALID")
    case True
    then have "FAILED hr \<and> s' = s"
      using run u by (auto simp: FAILED_simps split: if_splits)
    then show ?thesis by (simp add: NewAllocations_def SUCCEEDED_iff AddCounters_zero)
  next
    case False
    then have eq: "TryWithinResource env this ad nd ri ?t st cv s = (hr, s')"
      using run u by (auto split: if_splits)
    from TryWithinResource_stage[of ad s env this nd ri ?t st cv]
    obtain s1 where k: "keeps (SubAllocationEvent (ALLOCATION_FLAG_NEVER_ALLOCATE_MEMORY
                                 \<in> AllocFlags ad)) s s1"
      and d: "(hr, s') = CommittedFallback env this ad nd ri ?t st cv s1
              \<or> (SUCCEEDED hr \<and> s' = s1
                 \<and> ProducedBySubAllocation env
                       (ALLOCATION_FLAG_NEVER_ALLOCATE_MEMORY \<in> AllocFlags ad) s1)"
      by (auto simp: eq)
    have m: "mInfo s1 = mInfo s" using k by (simp add: keeps_def)
    from d show ?thesis
    proof
      assume "(hr, s') = CommittedFallback env this ad nd ri ?t st cv s1"
      then show ?thesis using CommittedFallback_accounts[of env this ad nd ri ?t st cv s1 hr s'] m
        by simp
    next
      assume a: "SUCCEEDED hr \<and> s' = s1
                 \<and> ProducedBySubAllocation env
                       (ALLOCATION_FLAG_NEVER_ALLOCATE_MEMORY \<in> AllocFlags ad) s1"
      then have "filter IsCommitted (NewAllocations hr s') = []"
        using ProducedBySubAllocation_accounts[OF ok] by blast
      then show ?thesis using a m by (simp add: AddCounters_zero)
    qed
  qed
qed

lemma CreateResources_accounts:
  assumes ok: "\<forall>tr allocator sz al n c p a.
        TryAllocateMemory env tr allocator sz al n c p = Some a \<longrightarrow> \<not> IsCommitted a"
  shows "CreateResources env this requests s = (allocations, s') \<Longrightarrow>
     mInfo s' = AddCounters (of_nat (length (filter IsCommitted allocations)))
                     (sum_list (map GetSize (filter IsCommitted allocations)))
                     (mInfo s)"
proof (induction requests arbitrary: s allocations s')
  case Nil
  then show ?case by (simp add: AddCounters_zero)
next
  case (Cons req requests)
  obtain ad rd st cv where req: "req = (ad, rd, st, cv)" by (cases req) auto
  obtain hr s1 where r1: "CreateResourceInternal env this ad rd st cv s = (hr, s1)"
    by (cases "CreateResourceInternal env this ad rd st cv s")
  obtain as2 s2 where r2: "CreateResources env this requests s1 = (as2, s2)"
    by (cases "CreateResources env this requests s1")
  have al: "allocations = NewAllocations hr s1 @ as2" and s2: "s' = s2"
    using Cons.prems req r1 r2 by auto
  have m1: "mInfo s1 = AddCounters (of_nat (length (filter IsCommitted (NewAllocations hr s1))))
                     (sum_list (map GetSize (filter IsCommitted (NewAllocations hr s1))))
                     (mInfo s)"
    by (rule CreateResourceInternal_accounts[OF ok r1])
  have m2: "mInfo s2 = AddCounters (of_nat (length (filter IsCommitted as2)))
                     (sum_list (map GetSize (filter IsCommitted as2))) (mInfo s1)"
    by (rule Cons.IH[OF r2])
  show ?case
    by (simp add: al s2 m2 m1 AddCounters_add add.commute)
qed

lemma fold_DeallocateMemory_mInfo:
  "mInfo (fold DeallocateMemory ds s)
     = AddCounters (- of_nat (length ds)) (- sum_list (map GetSize ds)) (mInfo s)"
proof (induction ds arbitrary: s)
  case Nil
  then show ?case by (simp add: AddCounters_zero)
next
  case (Cons d ds)
  have "mInfo (DeallocateMemory d s) = AddCounters (- 1) (- GetSize d) (mInfo s)"
    by (simp add: DeallocateMemory_def AddCounters_def)
  then show ?case using Cons.IH[of "DeallocateMemory d s"]
    by (simp add: AddCounters_add algebra_simps)
qed

lemma fold_DeallocateMemory_trace: "trace (fold DeallocateMemory ds s) = trace s"
  by (induction ds arbitrary: s) (simp_all add: DeallocateMemory_def)

lemma mset_eq_sum_list_map:
  fixes f :: "'a \<Rightarrow> uint64_t"
  assumes "mset xs = mset ys"
  shows "sum_list (map f xs) = sum_list (map f ys)"
proof -
  have "sum_list (map f xs) = sum_mset (image_mset f (mset xs))"
    by (metis mset_map sum_mset_sum_list)
  also have "\<dots> = sum_mset (image_mset f (mset ys))" using assms by simp
  also have "\<dots> = sum_list (map f ys)" by (metis mset_map sum_mset_sum_list)
  finally show ?thesis .
qed

lemma foldl_AddInfo:
  "UsedBlockUsage (foldl (\<lambda>result a. AddInfo result (f a)) info xs)
     = UsedBlockUsage info + sum_list (map (\<lambda>a. UsedBlockUsage (f a)) xs)
   \<and> UsedMemoryCount (foldl (\<lambda>result a. AddInfo result (f a)) info xs)
     = UsedMemoryCount info + sum_list (map (\<lambda>a. UsedMemoryCount (f a)) xs)
   \<and> UsedMemoryUsage (foldl (\<lambda>result a. AddInfo result (f a)) info xs)
     = UsedMemoryUsage info + sum_list (map (\<lambda>a. UsedMemoryUsage (f a)) xs)"
  by (induction xs arbitrary: info) (simp_all add: AddInfo_def add.assoc)

lemma unat_sum_list_le:
  fixes f :: "'a \<Rightarrow> uint32_t"
  shows "unat (sum_list (map f xs)) \<le> sum_list (map (\<lambda>a. unat (f a)) xs)"
proof (induction xs)
  case Nil
  then show ?case by simp
next
  case (Cons x xs)
  have "unat (f x + sum_list (map f xs)) \<le> unat (f x) + unat (sum_list (map f xs))"
    by (simp add: unat_word_ariths)
  then show ?case using Cons.IH by simp
qed

text \<open>
  C8. Take any sequence of requests, and release, in any order, the committed allocations
  it produced (the allocations that the facade owns; the allocators hand out none of
  those). The creations added to the facade's counters one memory and the size of the
  allocation for each of them, and after the releases the counters \<open>mInfo\<close> are what they
  were before the first request. What \<open>QueryInfo\<close> then reports is those prior counters
  and the reports of the allocators: its used-block bytes, used-memory count and
  used-memory bytes are the prior ones plus the sums of the allocators'. So on a facade
  whose counters were 0, the used-block bytes are 0 when the allocators report no used
  block, and the used-memory count is not more than the memories that the allocators
  (the pools) report.
\<close>

theorem committed_allocations_round_trip:
  assumes ok: "\<forall>tr allocator sz al n c p a.
        TryAllocateMemory env tr allocator sz al n c p = Some a \<longrightarrow> \<not> IsCommitted a"
    and run: "CreateResources env this requests s = (allocations, s1)"
    and rel: "mset released = mset (filter IsCommitted allocations)"
  shows "mInfo s1 = AddCounters (of_nat (length released)) (sum_list (map GetSize released))
                      (mInfo s)
         \<and> mInfo (fold DeallocateMemory released s1) = mInfo s
         \<and> QueryInfo env (fold DeallocateMemory released s1)
             = foldl (\<lambda>result a. AddInfo result (AllocatorQueryInfo env (trace s1) a))
                 (mInfo s) AllocatorsOfFacade
         \<and> UsedBlockUsage (QueryInfo env (fold DeallocateMemory released s1))
             = UsedBlockUsage (mInfo s)
               + sum_list (map (\<lambda>a. UsedBlockUsage (AllocatorQueryInfo env (trace s1) a))
                             AllocatorsOfFacade)
         \<and> UsedMemoryCount (QueryInfo env (fold DeallocateMemory released s1))
             = UsedMemoryCount (mInfo s)
               + sum_list (map (\<lambda>a. UsedMemoryCount (AllocatorQueryInfo env (trace s1) a))
                             AllocatorsOfFacade)
         \<and> UsedMemoryUsage (QueryInfo env (fold DeallocateMemory released s1))
             = UsedMemoryUsage (mInfo s)
               + sum_list (map (\<lambda>a. UsedMemoryUsage (AllocatorQueryInfo env (trace s1) a))
                             AllocatorsOfFacade)
         \<and> (UsedBlockUsage (mInfo s) = 0
              \<and> (\<forall>a \<in> set AllocatorsOfFacade.
                    UsedBlockUsage (AllocatorQueryInfo env (trace s1) a) = 0)
              \<longrightarrow> UsedBlockUsage (QueryInfo env (fold DeallocateMemory released s1)) = 0)
         \<and> (UsedMemoryCount (mInfo s) = 0
              \<longrightarrow> unat (UsedMemoryCount (QueryInfo env (fold DeallocateMemory released s1)))
                    \<le> sum_list (map (\<lambda>a. unat (UsedMemoryCount
                                                  (AllocatorQueryInfo env (trace s1) a)))
                                  AllocatorsOfFacade))"
proof -
  let ?final = "fold DeallocateMemory released s1"
  let ?f = "AllocatorQueryInfo env (trace s1)"
  have len: "length released = length (filter IsCommitted allocations)"
    using rel by (rule mset_eq_length)
  have sum: "sum_list (map GetSize released)
      = sum_list (map GetSize (filter IsCommitted allocations))"
    using rel by (rule mset_eq_sum_list_map)
  have m1: "mInfo s1 = AddCounters (of_nat (length released)) (sum_list (map GetSize released))
                      (mInfo s)"
    using CreateResources_accounts[OF ok run] len sum by simp
  have m2: "mInfo ?final = mInfo s"
    by (simp add: fold_DeallocateMemory_mInfo m1 AddCounters_add AddCounters_zero)
  have q: "QueryInfo env ?final
      = foldl (\<lambda>result a. AddInfo result (?f a)) (mInfo s) AllocatorsOfFacade"
    by (simp add: QueryInfo_def m2 fold_DeallocateMemory_trace)
  note fa = foldl_AddInfo[of ?f "mInfo s" AllocatorsOfFacade, folded q]
  have b: "UsedBlockUsage (QueryInfo env ?final)
      = UsedBlockUsage (mInfo s) + sum_list (map (\<lambda>a. UsedBlockUsage (?f a)) AllocatorsOfFacade)"
    and c: "UsedMemoryCount (QueryInfo env ?final)
      = UsedMemoryCount (mInfo s) + sum_list (map (\<lambda>a. UsedMemoryCount (?f a)) AllocatorsOfFacade)"
    and u: "UsedMemoryUsage (QueryInfo env ?final)
      = UsedMemoryUsage (mInfo s) + sum_list (map (\<lambda>a. UsedMemoryUsage (?f a)) AllocatorsOfFacade)"
    using fa by blast+
  have b0: "UsedBlockUsage (mInfo s) = 0
              \<and> (\<forall>a \<in> set AllocatorsOfFacade. UsedBlockUsage (?f a) = 0)
            \<longrightarrow> UsedBlockUsage (QueryInfo env ?final) = 0"
  proof
    assume h: "UsedBlockUsage (mInfo s) = 0
              \<and> (\<forall>a \<in> set AllocatorsOfFacade. UsedBlockUsage (?f a) = 0)"
    then have "map (\<lambda>a. UsedBlockUsage (?f a)) AllocatorsOfFacade
        = map (\<lambda>a. 0) AllocatorsOfFacade"
      by simp
    then have "sum_list (map (\<lambda>a. UsedBlockUsage (?f a)) AllocatorsOfFacade) = 0"
      by (simp only: sum_list_0)
    then show "UsedBlockUsage (QueryInfo env ?final) = 0" using b h by simp
  qed
  have c0: "UsedMemoryCount (mInfo s) = 0
            \<longrightarrow> unat (UsedMemoryCount (QueryInfo env ?final))
                  \<le> sum_list (map (\<lambda>a. unat (UsedMemoryCount (?f a))) AllocatorsOfFacade)"
    using c unat_sum_list_le[of "\<lambda>a. UsedMemoryCount (?f a)" AllocatorsOfFacade] by simp
  show ?thesis using m1 m2 q b c u b0 c0 by blast
qed

theorem committed_allocations_round_trip_witness:
  "map IsCommitted (fst (CreateResources (exampleEnv kInvalidSize None S_OK S_OK S_OK)
        (exampleThis False)
        [(exampleRequest {}, exampleResource D3D12_RESOURCE_DIMENSION_TEXTURE2D 0 65536,
          D3D12_RESOURCE_STATE_GENERIC_READ, None),
         (exampleRequest {}, exampleResource D3D12_RESOURCE_DIMENSION_TEXTURE2D 0 131072,
          D3D12_RESOURCE_STATE_GENERIC_READ, None)]
        exampleState)) = [True, True]
   \<and> UsedMemoryUsage (mInfo (snd (CreateResources (exampleEnv kInvalidSize None S_OK S_OK S_OK)
        (exampleThis False)
        [(exampleRequest {}, exampleResource D3D12_RESOURCE_DIMENSION_TEXTURE2D 0 65536,
          D3D12_RESOURCE_STATE_GENERIC_READ, None),
         (exampleRequest {}, exampleResource D3D12_RESOURCE_DIMENSION_TEXTURE2D 0 131072,
          D3D12_RESOURCE_STATE_GENERIC_READ, None)]
        exampleState))) = 196608
   \<and> mInfo (fold DeallocateMemory
        (rev (fst (CreateResources (exampleEnv kInvalidSize None S_OK S_OK S_OK)
           (exampleThis False)
           [(exampleRequest {}, exampleResource D3D12_RESOURCE_DIMENSION_TEXTURE2D 0 65536,
             D3D12_RESOURCE_STATE_GENERIC_READ, None),
            (exampleRequest {}, exampleResource D3D12_RESOURCE_DIMENSION_TEXTURE2D 0 131072,
             D3D12_RESOURCE_STATE_GENERIC_READ, None)]
           exampleState)))
        (snd (CreateResources (exampleEnv kInvalidSize None S_OK S_OK S_OK)
           (exampleThis False)
           [(exampleRequest {}, exampleResource D3D12_RESOURCE_DIMENSION_TEXTURE2D 0 65536,
             D3D12_RESOURCE_STATE_GENERIC_READ, None),
            (exampleRequest {}, exampleResource D3D12_RESOURCE_DIMENSION_TEXTURE2D 0 131072,
             D3D12_RESOURCE_STATE_GENERIC_READ, None)]
           exampleState)))
     = mInfo exampleState
   \<and> UsedBlockUsage (QueryInfo (exampleEnv kInvalidSize None S_OK S_OK S_OK)
        (fold DeallocateMemory
           (rev (fst (CreateResources (exampleEnv kInvalidSize None S_OK S_OK S_OK)
           (exampleThis False)
           [(exampleRequest {}, exampleResource D3D12_RESOURCE_DIMENSION_TEXTURE2D 0 65536,
             D3D12_RESOURCE_STATE_GENERIC_READ, None),
            (exampleRequest {}, exampleResource D3D12_RESOURCE_DIMENSION_TEXTURE2D 0 131072,
             D3D12_RESOURCE_STATE_GENERIC_READ, None)]
           exampleState)))
           (snd (CreateResources (exampleEnv kInvalidSize None S_OK S_OK S_OK)
           (exampleThis False)
           [(exampleRequest {}, exampleResource D3D12_RESOURCE_DIMENSION_TEXTURE2D 0 65536,
             D3D12_RESOURCE_STATE_GENERIC_READ, None),
            (exampleRequest {}, exampleResource D3D12_RESOURCE_DIMENSION_TEXTURE2D 0 131072,
             D3D12_RESOURCE_STATE_GENERIC_READ, None)]
           exampleState)))) = 0
   \<and> unat (UsedMemoryCount (QueryInfo (exampleEnv kInvalidSize None S_OK S_OK S_OK)
        (fold DeallocateMemory
           (rev (fst (CreateResources (exampleEnv kInvalidSize None S_OK S_OK S_OK)
           (exampleThis False)
           [(exampleRequest {}, exampleResource D3D12_RESOURCE_DIMENSION_TEXTURE2D 0 65536,
             D3D12_RESOURCE_STATE_GENERIC_READ, None),
            (exampleRequest {}, exampleResource D3D12_RESOURCE_DIMENSION_TEXTURE2D 0 131072,
             D3D12_RESOURCE_STATE_GENERIC_READ, None)]
           exampleState)))
           (snd (CreateResources (exampleEnv kInvalidSize None S_OK S_OK S_OK)
           (exampleThis False)
           [(exampleRequest {}, exampleResource D3D12_RESOURCE_DIMENSION_TEXTURE2D 0 65536,
             D3D12_RESOURCE_STATE_GENERIC_READ, None),
            (exampleRequest {}, exampleResource D3D12_RESOURCE_DIMENSION_TEXTURE2D 0 131072,
             D3D12_RESOURCE_STATE_GENERIC_READ, None)]
           exampleState))))) \<le> 0"
proof -
  let ?E = "exampleEnv kInvalidSize None S_OK S_OK S_OK"
  let ?R = "[(exampleRequest {}, exampleResource D3D12_RESOURCE_DIMENSION_TEXTURE2D 0 65536,
          D3D12_RESOURCE_STATE_GENERIC_READ, None),
         (exampleRequest {}, exampleResource D3D12_RESOURCE_DIMENSION_TEXTURE2D 0 131072,
          D3D12_RESOURCE_STATE_GENERIC_READ, None)]"
  let ?X = "CreateResources ?E (exampleThis False) ?R exampleState"
  have ok: "\<forall>tr allocator sz al n c p a.
        TryAllocateMemory ?E tr allocator sz al n c p = Some a \<longrightarrow> \<not> IsCommitted a"
    by (simp add: exampleEnv_def)
  have allocs: "fst ?X =
      [NewResourceAllocation True (Some ThisResourceAllocator) kInvalidOffset None kStandalone 9
         (Some \<lparr> hPageable = 9, hMemorySegmentGroup = DXGI_MEMORY_SEGMENT_GROUP_LOCAL,
                 hSize = 65536 \<rparr>),
       NewResourceAllocation True (Some ThisResourceAllocator) kInvalidOffset None kStandalone 9
         (Some \<lparr> hPageable = 9, hMemorySegmentGroup = DXGI_MEMORY_SEGMENT_GROUP_LOCAL,
                 hSize = 131072 \<rparr>)]"
    by (simp add: eval_defs NewAllocations_def)
  have run: "?X = (fst ?X, snd ?X)" by simp
  have rel: "mset (rev (fst ?X)) = mset (filter IsCommitted (fst ?X))"
    unfolding allocs by (simp add: IsCommitted_def NewResourceAllocation_def)
  have c: "map IsCommitted (fst ?X) = [True, True]"
    unfolding allocs by (simp add: IsCommitted_def NewResourceAllocation_def)
  note rt = committed_allocations_round_trip[OF ok run rel]
  have r: "mInfo (snd ?X) = AddCounters (of_nat (length (rev (fst ?X))))
          (sum_list (map GetSize (rev (fst ?X)))) (mInfo exampleState)"
    and d: "mInfo (fold DeallocateMemory (rev (fst ?X)) (snd ?X)) = mInfo exampleState"
    using rt by blast+
  have z: "\<And>tr a. UsedBlockUsage (AllocatorQueryInfo ?E tr a) = 0"
    "\<And>tr a. UsedMemoryCount (AllocatorQueryInfo ?E tr a) = 0"
    by (simp_all add: exampleEnv_def)
  have s0: "UsedBlockUsage (mInfo exampleState) = 0" "UsedMemoryCount (mInfo exampleState) = 0"
    by (simp_all add: exampleState_def)
  have qb: "UsedBlockUsage (QueryInfo ?E (fold DeallocateMemory (rev (fst ?X)) (snd ?X))) = 0"
    using rt s0 z by blast
  have "unat (UsedMemoryCount (QueryInfo ?E (fold DeallocateMemory (rev (fst ?X)) (snd ?X))))
      \<le> sum_list (map (\<lambda>a. unat (UsedMemoryCount
                            (AllocatorQueryInfo ?E (trace (snd ?X)) a))) AllocatorsOfFacade)"
    using rt s0 by blast
  then have qc: "unat (UsedMemoryCount
      (QueryInfo ?E (fold DeallocateMemory (rev (fst ?X)) (snd ?X)))) \<le> 0"
    by (simp add: z)
  have u: "UsedMemoryUsage (mInfo (snd ?X)) = 196608"
    unfolding r allocs
    by (simp add: AddCounters_def NewResourceAllocation_def GetSize_def exampleState_def)
  show ?thesis using c d u qb qc by blast
qed

end
